theory Spec2Isabelle
  imports Complex_Main
begin

section \<open>Data model of the exchange server\<close>

text \<open>
  The server package (\<^verbatim>\<open>src/unnamed/part_000\<close>) is a thin HTTP layer over the
  \<^verbatim>\<open>orderbook\<close> package. Go's \<^verbatim>\<open>int64\<close> values are modelled as \<open>int\<close>. A \<^verbatim>\<open>float64\<close> field
  of a request, an order or a match holds a finite value and is the \<open>real\<close> it denotes;
  the results of the \<^verbatim>\<open>float64\<close> arithmetic of the handlers are values of the type
  \<open>float64\<close> below, computed with the rounding of IEEE 754. Pointers are addresses into
  a store, a nil pointer is \<open>None\<close>.
\<close>

text \<open>
  The values of a \<^verbatim>\<open>float64\<close>: a finite value (as the real number it denotes, \<open>Finite 0\<close>
  being the positive zero), the negative zero, the two infinities and NaN.
\<close>

datatype float64 = Finite real | NegZero | PosInf | NegInf | NaN

type_synonym order_ref = nat
type_synonym limit_ref = nat
type_synonym book_ref = nat
type_synonym Market = string
type_synonym OrderType = string

definition MarketOrder :: OrderType where
  "MarketOrder = ''MARKET''"

definition LimitOrder :: OrderType where
  "LimitOrder = ''LIMIT''"

definition MarketETH :: Market where
  "MarketETH = ''ETH''"

text \<open>The request body of \<^verbatim>\<open>POST /order\<close>. It has no field for an order id.\<close>

record PlaceOrderRequest =
  r_UserID :: int
  r_Type :: OrderType
  r_Bid :: bool
  r_Size :: real
  r_Price :: real
  r_Market :: Market

text \<open>The server's own \<^verbatim>\<open>Order\<close>: an order as it is written to the wire.\<close>

record Order =
  UserID :: int
  ID :: int
  Price :: real
  Size :: real
  Bid :: bool
  Timestamp :: int

text \<open>Go's zero value \<^verbatim>\<open>Order{}\<close>.\<close>

definition zero_Order :: Order where
  "zero_Order = \<lparr>UserID = 0, ID = 0, Price = 0, Size = 0, Bid = False, Timestamp = 0\<rparr>"

record MatchedOrder =
  mo_UserID :: int
  mo_Price :: real
  mo_Size :: real
  mo_ID :: int

text \<open>
  Modelled from the spec: the types of the \<^verbatim>\<open>orderbook\<close> package, whose declarations
  are missing from the source files. The fields the server reads have the names of the
  source: \<^verbatim>\<open>orderbook.Order\<close> (\<^verbatim>\<open>ID\<close>, \<^verbatim>\<open>UserID\<close>, \<^verbatim>\<open>Size\<close>, \<^verbatim>\<open>Bid\<close>, \<^verbatim>\<open>Limit\<close>,
  \<^verbatim>\<open>Timestamp\<close>), \<^verbatim>\<open>orderbook.Limit\<close> (\<^verbatim>\<open>Price\<close>, \<^verbatim>\<open>Orders\<close>), \<^verbatim>\<open>orderbook.Match\<close> (\<^verbatim>\<open>Ask\<close>,
  \<^verbatim>\<open>Bid\<close>, \<^verbatim>\<open>SizeFilled\<close>, \<^verbatim>\<open>Price\<close>) and \<^verbatim>\<open>orderbook.Orderbook\<close> (\<^verbatim>\<open>Orders\<close>, \<^verbatim>\<open>Trades\<close>).
  The volume cache of a Limit, the fields of a Trade, and the two sides and price maps
  of a book follow section 3 of the specification.
\<close>

record OB_Order =
  o_ID :: int
  o_UserID :: int
  o_Size :: real
  o_Bid :: bool
  o_Limit :: "limit_ref option"
  o_Timestamp :: int

record Limit =
  l_Price :: real
  l_Orders :: "order_ref list"
  l_TotalVolume :: real

record Match =
  m_Ask :: order_ref
  m_Bid :: order_ref
  m_SizeFilled :: real
  m_Price :: real

record Trade =
  t_Price :: real
  t_Size :: real
  t_Bid :: bool
  t_Timestamp :: int

record Orderbook =
  book_asks :: "limit_ref list"
  book_bids :: "limit_ref list"
  book_ask_limits :: "real \<rightharpoonup> limit_ref"
  book_bid_limits :: "real \<rightharpoonup> limit_ref"
  book_Orders :: "int \<rightharpoonup> order_ref"
  book_Trades :: "Trade list"

text \<open>
  The store: every \<^verbatim>\<open>*orderbook.Order\<close>, \<^verbatim>\<open>*orderbook.Limit\<close> and
  \<^verbatim>\<open>*orderbook.Orderbook\<close> is an address, and the objects live here. The store also
  holds what the order constructor draws from: the next identifier, the clock, and the
  next free addresses.
\<close>

record Memory =
  ordersH :: "order_ref \<Rightarrow> OB_Order"
  limitsH :: "limit_ref \<Rightarrow> Limit"
  booksH :: "book_ref \<Rightarrow> Orderbook"
  next_id :: int
  clock :: int
  fresh_order :: order_ref
  fresh_limit :: limit_ref

text \<open>
  Keys and addresses of the Ethereum library are opaque: a private key is named by its
  hex string, and \<^verbatim>\<open>crypto.PubkeyToAddress\<close> of a key's public half is a symbolic address.
\<close>

datatype PrivateKey = HexToECDSA string

datatype Address = PubkeyToAddress PrivateKey

record User =
  u_ID :: int
  u_PrivateKey :: PrivateKey

text \<open>
  The \<^verbatim>\<open>Exchange\<close> struct. \<^verbatim>\<open>Ctx\<close> and \<^verbatim>\<open>Client\<close> belong to the Ethereum client; the
  mutex \<^verbatim>\<open>mu\<close> shows as lock events in the trace of a handler.
\<close>

record Exchange =
  Users :: "int \<rightharpoonup> User"
  Orders :: "int \<rightharpoonup> order_ref list"
  ex_PrivateKey :: PrivateKey
  orderbooks :: "Market \<rightharpoonup> book_ref"

subsection \<open>Failures, responses and effects\<close>

text \<open>
  A Go panic is a \<open>failure\<close>; an \<^verbatim>\<open>error\<close> value returned by a handler is an \<open>error\<close>.
  The installed \<^verbatim>\<open>httpErrorHandler\<close> only prints a returned error, so a handler that
  returns one writes no response of its own.
\<close>

datatype failure =
    NilPointerDereference
  | IndexOutOfRange
  | InsufficientLiquidity
  | InvalidSize

datatype error =
    DecodeError
  | ErrSyntax
  | ErrRange
  | UserNotFound int

datatype body =
    Msg string
  | APIError string
  | PlaceOrderResponse int
  | OrderBody Order
  | GetOrdersResponse "Order list" "Order list"
  | OrderbookData real real "Order list" "Order list"
  | TradesBody "Trade list"

datatype outcome =
    Respond nat body
  | ReturnError error
  | Panicked failure

datatype engine_op = OpPlaceLimitOrder | OpPlaceMarketOrder | OpCancelOrder

text \<open>
  The effects of a handler, in program order: operations on the exchange mutex, the
  entry into and the return from a mutating call of the order book, log lines, and
  calls of \<^verbatim>\<open>transferETH\<close> (key of the sender, address of the receiver, amount).
\<close>

datatype event =
    Lock
  | Unlock
  | RLock
  | RUnlock
  | Enter engine_op
  | Leave engine_op
  | LogFilledMarketOrder float64 OrderType float64
  | LogOrderCanceled int
  | LogNilLimit order_ref
  | TransferETH PrivateKey Address int

type_synonym 'a result = "(failure + 'a) \<times> Exchange \<times> Memory \<times> event list"

subsection \<open>The interface of the order book package\<close>

text \<open>
  The \<^verbatim>\<open>orderbook\<close> package is not among the source files. The handlers are embedded
  against its interface: one field per function or method the server calls. A method
  takes its receiver as a possibly nil pointer, takes the store, and either panics or
  returns its result with the new store.
\<close>

record Engine =
  NewOrder :: "bool \<Rightarrow> real \<Rightarrow> int \<Rightarrow> Memory \<Rightarrow> failure + (order_ref \<times> Memory)"
  IsFilled :: "order_ref \<Rightarrow> Memory \<Rightarrow> bool"
  TypeOf :: "order_ref \<Rightarrow> Memory \<Rightarrow> OrderType"
  PlaceLimitOrder :: "book_ref option \<Rightarrow> real \<Rightarrow> order_ref \<Rightarrow> Memory \<Rightarrow> failure + Memory"
  PlaceMarketOrder :: "book_ref option \<Rightarrow> order_ref \<Rightarrow> Memory \<Rightarrow> failure + (Match list \<times> Memory)"
  CancelOrder :: "book_ref option \<Rightarrow> order_ref option \<Rightarrow> Memory \<Rightarrow> failure + Memory"
  Asks :: "book_ref option \<Rightarrow> Memory \<Rightarrow> failure + (limit_ref list \<times> Memory)"
  Bids :: "book_ref option \<Rightarrow> Memory \<Rightarrow> failure + (limit_ref list \<times> Memory)"
  AskTotalVolume :: "book_ref option \<Rightarrow> Memory \<Rightarrow> failure + (real \<times> Memory)"
  BidTotalVolume :: "book_ref option \<Rightarrow> Memory \<Rightarrow> failure + (real \<times> Memory)"


section \<open>Library functions of Go used by the handlers\<close>

text \<open>
  \<^verbatim>\<open>strconv.Atoi\<close> on a 64-bit platform: an optional sign, then one or more decimal
  digits. A syntax error gives 0 with \<^verbatim>\<open>ErrSyntax\<close>; a value outside \<^verbatim>\<open>int64\<close> gives the
  nearest bound with \<^verbatim>\<open>ErrRange\<close>.
\<close>

definition digit_val :: "char \<Rightarrow> int option" where
  "digit_val c =
     (if (48::int) \<le> of_char c \<and> of_char c \<le> (57::int) then Some (of_char c - 48) else None)"

fun digits_val :: "string \<Rightarrow> int \<Rightarrow> int option" where
  "digits_val [] acc = Some acc"
| "digits_val (c # cs) acc =
     (case digit_val c of None \<Rightarrow> None | Some d \<Rightarrow> digits_val cs (acc * 10 + d))"

definition Atoi :: "string \<Rightarrow> int \<times> error option" where
  "Atoi s =
     (let (neg, ds) =
            (case s of
               [] \<Rightarrow> (False, s)
             | c # r \<Rightarrow>
                 if c = CHR ''-'' then (True, r)
                 else if c = CHR ''+'' then (False, r)
                 else (False, s))
      in if ds = [] then (0, Some ErrSyntax)
         else (case digits_val ds 0 of
                 None \<Rightarrow> (0, Some ErrSyntax)
               | Some n \<Rightarrow>
                   (let v = (if neg then - n else n)
                    in if v > 2 ^ 63 - 1 then (2 ^ 63 - 1, Some ErrRange)
                       else if v < - (2 ^ 63) then (- (2 ^ 63), Some ErrRange)
                       else (v, None))))"

text \<open>
  The conversion \<^verbatim>\<open>int64(x)\<close> of a \<^verbatim>\<open>float64\<close>: the fraction is discarded (truncation
  towards zero). For a value outside \<^verbatim>\<open>int64\<close> Go leaves the result to the
  implementation; the value of amd64 is taken here.
\<close>

definition truncate_real :: "real \<Rightarrow> int" where
  "truncate_real x = (if 0 \<le> x then \<lfloor>x\<rfloor> else \<lceil>x\<rceil>)"

definition int64_of_float64 :: "real \<Rightarrow> int" where
  "int64_of_float64 x =
     (let t = truncate_real x
      in if - (2 ^ 63) \<le> t \<and> t < 2 ^ 63 then t else - (2 ^ 63))"

text \<open>
  The arithmetic of \<^verbatim>\<open>float64\<close> (IEEE 754 binary64, rounding to nearest, ties to even).
  \<open>round64\<close> rounds an exact result: the exponent of a nonzero value is that of its
  leading bit, at least that of the subnormal numbers; the spacing of the representable
  numbers there is 52 binary places below; a result of magnitude \<open>2 ^ 1024\<close> or more is
  an infinity, and a result that rounds to zero keeps its sign.
\<close>

definition round_half_even :: "real \<Rightarrow> int" where
  "round_half_even x =
     (let f = \<lfloor>x\<rfloor>; d = x - of_int f
      in if d < 1 / 2 then f else if 1 / 2 < d then f + 1 else if even f then f else f + 1)"

definition round64 :: "real \<Rightarrow> float64" where
  "round64 x =
     (if x = 0 then Finite 0
      else (let a = \<bar>x\<bar>;
                e = max \<lfloor>log 2 a\<rfloor> (- 1022);
                q = 2 powi (e - 52);
                r = of_int (round_half_even (a / q)) * q
            in if 2 ^ 1024 \<le> r then (if 0 < x then PosInf else NegInf)
               else if r = 0 then (if 0 < x then Finite 0 else NegZero)
               else Finite (if 0 < x then r else - r)))"

definition is_negative :: "float64 \<Rightarrow> bool" where
  "is_negative x =
     (case x of Finite r \<Rightarrow> r < 0 | NegZero \<Rightarrow> True | NegInf \<Rightarrow> True | _ \<Rightarrow> False)"

definition is_infinite :: "float64 \<Rightarrow> bool" where
  "is_infinite x = (x = PosInf \<or> x = NegInf)"

definition is_zero :: "float64 \<Rightarrow> bool" where
  "is_zero x = (x = Finite 0 \<or> x = NegZero)"

definition value_of :: "float64 \<Rightarrow> real" where
  "value_of x = (case x of Finite r \<Rightarrow> r | _ \<Rightarrow> 0)"

definition signed_zero :: "bool \<Rightarrow> float64" where
  "signed_zero negative = (if negative then NegZero else Finite 0)"

definition signed_inf :: "bool \<Rightarrow> float64" where
  "signed_inf negative = (if negative then NegInf else PosInf)"

text \<open>
  The sum \<^verbatim>\<open>x + y\<close>: NaN for a NaN operand or for infinities of opposite sign; an
  infinite operand otherwise; the negative zero only for two negative zeros, the
  positive zero for every other exact sum of zero; the rounded exact sum otherwise.
\<close>

definition float_add :: "float64 \<Rightarrow> float64 \<Rightarrow> float64" where
  "float_add x y =
     (if x = NaN \<or> y = NaN then NaN
      else if is_infinite x then (if is_infinite y \<and> y \<noteq> x then NaN else x)
      else if is_infinite y then y
      else if x = NegZero \<and> y = NegZero then NegZero
      else if value_of x + value_of y = 0 then Finite 0
      else round64 (value_of x + value_of y))"

text \<open>
  The quotient \<^verbatim>\<open>x / y\<close>. No division of \<^verbatim>\<open>float64\<close> values panics: a zero divided by a
  zero and an infinity divided by an infinity are NaN, a nonzero value divided by a
  zero is an infinity; the sign is the product of the signs.
\<close>

definition float_div :: "float64 \<Rightarrow> float64 \<Rightarrow> float64" where
  "float_div x y =
     (let negative = (is_negative x \<noteq> is_negative y)
      in if x = NaN \<or> y = NaN then NaN
         else if is_infinite x then (if is_infinite y then NaN else signed_inf negative)
         else if is_infinite y then signed_zero negative
         else if is_zero y then (if is_zero x then NaN else signed_inf negative)
         else if is_zero x then signed_zero negative
         else round64 (value_of x / value_of y))"

text \<open>The conversion \<^verbatim>\<open>float64(n)\<close> of a length: the nearest \<^verbatim>\<open>float64\<close>.\<close>

definition float64_of_nat :: "nat \<Rightarrow> float64" where
  "float64_of_nat n = round64 (real n)"

section \<open>The handlers\<close>

type_synonym handled = "outcome \<times> Exchange \<times> Memory \<times> event list"

subsection \<open>\<^verbatim>\<open>GET /trades/:market\<close>\<close>

definition handleGetTrades :: "Exchange \<Rightarrow> Memory \<Rightarrow> string \<Rightarrow> handled" where
  "handleGetTrades ex mem market =
     (case orderbooks ex market of
        None \<Rightarrow> (Respond 400 (APIError ''orderbook not found''), ex, mem, [])
      | Some ob \<Rightarrow> (Respond 200 (TradesBody (book_Trades (booksH mem ob))), ex, mem, []))"

subsection \<open>\<^verbatim>\<open>GET /order/:userID\<close>\<close>

text \<open>
  The loop of \<^verbatim>\<open>handleGetOrders\<close> over the user's orders, with the two lists of the
  response and the lines printed for skipped orders as accumulators.
\<close>

fun orders_loop ::
  "Memory \<Rightarrow> order_ref list \<Rightarrow> Order list \<times> Order list \<times> event list
     \<Rightarrow> Order list \<times> Order list \<times> event list" where
  "orders_loop mem [] acc = acc"
| "orders_loop mem (r # rs) (asks, bids, tr) =
     (case o_Limit (ordersH mem r) of
        None \<Rightarrow> orders_loop mem rs (asks, bids, tr @ [LogNilLimit r])
      | Some l \<Rightarrow>
          (let order = \<lparr>UserID = o_UserID (ordersH mem r),
                        ID = o_ID (ordersH mem r),
                        Price = l_Price (limitsH mem l),
                        Size = o_Size (ordersH mem r),
                        Bid = o_Bid (ordersH mem r),
                        Timestamp = o_Timestamp (ordersH mem r)\<rparr>
           in if Bid order
              then orders_loop mem rs (asks, bids @ [order], tr)
              else orders_loop mem rs (asks @ [order], bids, tr)))"

definition handleGetOrders :: "Exchange \<Rightarrow> Memory \<Rightarrow> string \<Rightarrow> handled" where
  "handleGetOrders ex mem userIDStr =
     (case Atoi userIDStr of
        (userID, Some err) \<Rightarrow> (ReturnError err, ex, mem, [])
      | (userID, None) \<Rightarrow>
          (let orderbookOrders = (case Orders ex userID of None \<Rightarrow> [] | Some os \<Rightarrow> os);
               (asks, bids, tr) = orders_loop mem orderbookOrders ([], [], [])
           in (Respond 200 (GetOrdersResponse asks bids), ex, mem, [RLock] @ tr @ [RUnlock])))"

subsection \<open>\<^verbatim>\<open>GET /book/:market\<close>\<close>

text \<open>
  The inner and the outer loop of \<^verbatim>\<open>handleGetBook\<close>. \<^verbatim>\<open>order.Limit.Price\<close> goes through
  the order's pointer to its limit, which panics when that pointer is nil.
\<close>

fun limit_orders_loop :: "Memory \<Rightarrow> order_ref list \<Rightarrow> Order list \<Rightarrow> failure + Order list" where
  "limit_orders_loop mem [] acc = Inr acc"
| "limit_orders_loop mem (r # rs) acc =
     (case o_Limit (ordersH mem r) of
        None \<Rightarrow> Inl NilPointerDereference
      | Some l \<Rightarrow>
          limit_orders_loop mem rs
            (acc @ [\<lparr>UserID = o_UserID (ordersH mem r),
                     ID = o_ID (ordersH mem r),
                     Price = l_Price (limitsH mem l),
                     Size = o_Size (ordersH mem r),
                     Bid = o_Bid (ordersH mem r),
                     Timestamp = o_Timestamp (ordersH mem r)\<rparr>]))"

fun side_loop :: "Memory \<Rightarrow> limit_ref list \<Rightarrow> Order list \<Rightarrow> failure + Order list" where
  "side_loop mem [] acc = Inr acc"
| "side_loop mem (limit # ls) acc =
     (case limit_orders_loop mem (l_Orders (limitsH mem limit)) acc of
        Inl f \<Rightarrow> Inl f
      | Inr acc' \<Rightarrow> side_loop mem ls acc')"

definition handleGetBook :: "Engine \<Rightarrow> Exchange \<Rightarrow> Memory \<Rightarrow> string \<Rightarrow> handled" where
  "handleGetBook eng ex mem market =
     (case orderbooks ex market of
        None \<Rightarrow> (Respond 400 (Msg ''market not found''), ex, mem, [])
      | Some ob \<Rightarrow>
          (case BidTotalVolume eng (Some ob) mem of
             Inl f \<Rightarrow> (Panicked f, ex, mem, [])
           | Inr (bidVolume, mem1) \<Rightarrow>
          (case AskTotalVolume eng (Some ob) mem1 of
             Inl f \<Rightarrow> (Panicked f, ex, mem1, [])
           | Inr (askVolume, mem2) \<Rightarrow>
          (case Asks eng (Some ob) mem2 of
             Inl f \<Rightarrow> (Panicked f, ex, mem2, [])
           | Inr (askLimits, mem3) \<Rightarrow>
          (case side_loop mem3 askLimits [] of
             Inl f \<Rightarrow> (Panicked f, ex, mem3, [])
           | Inr asks \<Rightarrow>
          (case Bids eng (Some ob) mem3 of
             Inl f \<Rightarrow> (Panicked f, ex, mem3, [])
           | Inr (bidLimits, mem4) \<Rightarrow>
          (case side_loop mem4 bidLimits [] of
             Inl f \<Rightarrow> (Panicked f, ex, mem4, [])
           | Inr bids \<Rightarrow>
               (Respond 200 (OrderbookData bidVolume askVolume asks bids), ex, mem4, []))))))))"

subsection \<open>\<^verbatim>\<open>GET /book/:market/bid\<close> and \<^verbatim>\<open>GET /book/:market/ask\<close>\<close>

text \<open>
  Neither handler tests the result of the map lookup: the book that reaches \<^verbatim>\<open>Bids()\<close>
  or \<^verbatim>\<open>Asks()\<close> may be nil. Each handler calls the method twice, once for the length
  and once for the first element.
\<close>

definition best_of :: "Memory \<Rightarrow> limit_ref list \<Rightarrow> outcome" where
  "best_of mem limits =
     (case limits of
        [] \<Rightarrow> Panicked IndexOutOfRange
      | bestLimit # _ \<Rightarrow>
          (case l_Orders (limitsH mem bestLimit) of
             [] \<Rightarrow> Panicked IndexOutOfRange
           | bestOrder # _ \<Rightarrow>
               Respond 200 (OrderBody (zero_Order
                 \<lparr>Price := l_Price (limitsH mem bestLimit),
                  UserID := o_UserID (ordersH mem bestOrder)\<rparr>))))"

definition handleGetBestBid :: "Engine \<Rightarrow> Exchange \<Rightarrow> Memory \<Rightarrow> string \<Rightarrow> handled" where
  "handleGetBestBid eng ex mem market =
     (let ob = orderbooks ex market
      in case Bids eng ob mem of
           Inl f \<Rightarrow> (Panicked f, ex, mem, [])
         | Inr (limits, mem1) \<Rightarrow>
             if length limits = 0 then (Respond 200 (OrderBody zero_Order), ex, mem1, [])
             else (case Bids eng ob mem1 of
                     Inl f \<Rightarrow> (Panicked f, ex, mem1, [])
                   | Inr (limits2, mem2) \<Rightarrow> (best_of mem2 limits2, ex, mem2, [])))"

definition handleGetBestAsk :: "Engine \<Rightarrow> Exchange \<Rightarrow> Memory \<Rightarrow> string \<Rightarrow> handled" where
  "handleGetBestAsk eng ex mem market =
     (let ob = orderbooks ex market
      in case Asks eng ob mem of
           Inl f \<Rightarrow> (Panicked f, ex, mem, [])
         | Inr (limits, mem1) \<Rightarrow>
             if length limits = 0 then (Respond 200 (OrderBody zero_Order), ex, mem1, [])
             else (case Asks eng ob mem1 of
                     Inl f \<Rightarrow> (Panicked f, ex, mem1, [])
                   | Inr (limits2, mem2) \<Rightarrow> (best_of mem2 limits2, ex, mem2, [])))"

subsection \<open>\<^verbatim>\<open>DELETE /order/:id\<close>\<close>

text \<open>
  The error of \<^verbatim>\<open>Atoi\<close> is discarded. The order looked up in the book's map is nil for
  an id that is not a key, and is handed to \<^verbatim>\<open>CancelOrder\<close> as it is. The handler has one
  response.
\<close>

definition cancelOrder :: "Engine \<Rightarrow> Exchange \<Rightarrow> Memory \<Rightarrow> string \<Rightarrow> handled" where
  "cancelOrder eng ex mem idStr =
     (let id = fst (Atoi idStr)
      in case orderbooks ex MarketETH of
           None \<Rightarrow> (Panicked NilPointerDereference, ex, mem, [])
         | Some ob \<Rightarrow>
             (let order = book_Orders (booksH mem ob) id
              in case CancelOrder eng (Some ob) order mem of
                   Inl f \<Rightarrow> (Panicked f, ex, mem, [Enter OpCancelOrder])
                 | Inr mem1 \<Rightarrow>
                     (Respond 200 (Msg ''order deleted''), ex, mem1,
                      [Enter OpCancelOrder, Leave OpCancelOrder, LogOrderCanceled id])))"


subsection \<open>Placing a market order\<close>

text \<open>
  The loop of \<^verbatim>\<open>handlePlaceMarketOrder\<close> over the matches: it fills \<^verbatim>\<open>matchedOrders\<close>
  and adds up \<^verbatim>\<open>totalSizeFilled\<close> and \<^verbatim>\<open>sumPrice\<close>, each addition a \<^verbatim>\<open>float64\<close> addition.
  The counterparty of a match is its ask when the incoming order is a bid, its bid
  otherwise.
\<close>

fun matches_loop ::
  "Memory \<Rightarrow> bool \<Rightarrow> Match list \<Rightarrow> MatchedOrder list \<times> float64 \<times> float64
     \<Rightarrow> MatchedOrder list \<times> float64 \<times> float64" where
  "matches_loop mem isBid [] acc = acc"
| "matches_loop mem isBid (m # ms) (matchedOrders, totalSizeFilled, sumPrice) =
     (let counterparty = (if isBid then m_Ask m else m_Bid m);
          matched = \<lparr>mo_UserID = o_UserID (ordersH mem counterparty),
                     mo_Price = m_Price m,
                     mo_Size = m_SizeFilled m,
                     mo_ID = o_ID (ordersH mem counterparty)\<rparr>
      in matches_loop mem isBid ms
           (matchedOrders @ [matched],
            float_add totalSizeFilled (Finite (m_SizeFilled m)),
            float_add sumPrice (Finite (m_Price m))))"

text \<open>
  The inner loop of the pruning: the orders of one user that are not filled are
  appended to the user's entry of the new map. The entry does not exist before the
  first append.
\<close>

fun prune_user ::
  "(order_ref \<Rightarrow> bool) \<Rightarrow> order_ref list \<Rightarrow> order_ref list option \<Rightarrow> order_ref list option" where
  "prune_user filled [] entry = entry"
| "prune_user filled (r # rs) entry =
     (if \<not> filled r
      then prune_user filled rs (Some ((case entry of None \<Rightarrow> [] | Some ks \<Rightarrow> ks) @ [r]))
      else prune_user filled rs entry)"

text \<open>
  The outer loop ranges over the keys of \<^verbatim>\<open>ex.Orders\<close> in no fixed order; each key
  writes its own entry of the new map only.
\<close>

definition prune_orders ::
  "(order_ref \<Rightarrow> bool) \<Rightarrow> (int \<rightharpoonup> order_ref list) \<Rightarrow> (int \<rightharpoonup> order_ref list)" where
  "prune_orders filled ordersMap =
     (\<lambda>userID. case ordersMap userID of
                  None \<Rightarrow> None
                | Some orderbookOrders \<Rightarrow> prune_user filled orderbookOrders None)"

definition handlePlaceMarketOrder ::
  "Engine \<Rightarrow> Exchange \<Rightarrow> Memory \<Rightarrow> Market \<Rightarrow> order_ref
     \<Rightarrow> (Match list \<times> MatchedOrder list) result" where
  "handlePlaceMarketOrder eng ex mem market order =
     (case PlaceMarketOrder eng (orderbooks ex market) order mem of
        Inl f \<Rightarrow> (Inl f, ex, mem, [Enter OpPlaceMarketOrder])
      | Inr (matches, mem1) \<Rightarrow>
          (let isBid = o_Bid (ordersH mem1 order);
               (matchedOrders, totalSizeFilled, sumPrice) =
                  matches_loop mem1 isBid matches ([], Finite 0, Finite 0);
               avgPrice = float_div sumPrice (float64_of_nat (length matches));
               newOrderMap = prune_orders (\<lambda>r. IsFilled eng r mem1) (Orders ex)
           in (Inr (matches, matchedOrders),
               ex\<lparr>Orders := newOrderMap\<rparr>,
               mem1,
               [Enter OpPlaceMarketOrder, Leave OpPlaceMarketOrder,
                LogFilledMarketOrder avgPrice (TypeOf eng order mem1) totalSizeFilled,
                Lock, Unlock])))"

subsection \<open>Placing a limit order\<close>

definition handlePlaceLimitOrder ::
  "Engine \<Rightarrow> Exchange \<Rightarrow> Memory \<Rightarrow> Market \<Rightarrow> real \<Rightarrow> order_ref \<Rightarrow> (error option) result" where
  "handlePlaceLimitOrder eng ex mem market price order =
     (case PlaceLimitOrder eng (orderbooks ex market) price order mem of
        Inl f \<Rightarrow> (Inl f, ex, mem, [Enter OpPlaceLimitOrder])
      | Inr mem1 \<Rightarrow>
          (let userID = o_UserID (ordersH mem1 order);
               userOrders = (case Orders ex userID of None \<Rightarrow> [] | Some os \<Rightarrow> os)
           in (Inr None,
               ex\<lparr>Orders := (Orders ex)(userID \<mapsto> userOrders @ [order])\<rparr>,
               mem1,
               [Enter OpPlaceLimitOrder, Leave OpPlaceLimitOrder, Lock, Unlock])))"

subsection \<open>Settlement\<close>

text \<open>
  \<^verbatim>\<open>transferETH\<close> talks to the Ethereum node only. Its calls of the client and of the
  signer are parameters: each either fails or gives its value. The type assertion on
  the public half of an ECDSA key cannot fail.
\<close>

record Transaction =
  tx_nonce :: nat
  tx_to :: Address
  tx_amount :: int
  tx_gasLimit :: nat
  tx_gasPrice :: int

datatype SignedTx = Signed Transaction int PrivateKey

record EthClient =
  PendingNonceAt :: "Address \<Rightarrow> string + nat"
  SuggestGasPrice :: "string + int"
  ChainID :: "string + int"
  SignTx :: "Transaction \<Rightarrow> int \<Rightarrow> PrivateKey \<Rightarrow> string + SignedTx"
  SendTransaction :: "SignedTx \<Rightarrow> string option"

text \<open>The result is the error returned and the transaction handed to the node, if any.\<close>

definition transferETH ::
  "EthClient \<Rightarrow> PrivateKey \<Rightarrow> Address \<Rightarrow> int \<Rightarrow> string option \<times> SignedTx option" where
  "transferETH client fromPK to amount =
     (let fromAddress = PubkeyToAddress fromPK
      in case PendingNonceAt client fromAddress of
           Inl err \<Rightarrow> (Some err, None)
         | Inr nonce \<Rightarrow>
             (let gasLimit = 21000
              in case SuggestGasPrice client of
                   Inl err \<Rightarrow> (Some err, None)
                 | Inr gasPrice \<Rightarrow>
                     (let tx = \<lparr>tx_nonce = nonce, tx_to = to, tx_amount = amount,
                                tx_gasLimit = gasLimit, tx_gasPrice = gasPrice\<rparr>
                      in case ChainID client of
                           Inl err \<Rightarrow> (Some err, None)
                         | Inr chainID \<Rightarrow>
                             (case SignTx client tx chainID fromPK of
                                Inl err \<Rightarrow> (Some err, None)
                              | Inr signedTx \<Rightarrow>
                                  (SendTransaction client signedTx, Some signedTx)))))"

text \<open>
  \<^verbatim>\<open>handleMatches\<close>: one call of \<^verbatim>\<open>transferETH\<close> per match, from the user of the ask to
  the user of the bid. The value \<^verbatim>\<open>transferETH\<close> returns is dropped. The loop returns at
  the first match with a user that is not registered.
\<close>

fun handleMatches :: "Exchange \<Rightarrow> Memory \<Rightarrow> Match list \<Rightarrow> error option \<times> event list" where
  "handleMatches ex mem [] = (None, [])"
| "handleMatches ex mem (match # matches) =
     (case Users ex (o_UserID (ordersH mem (m_Ask match))) of
        None \<Rightarrow> (Some (UserNotFound (o_UserID (ordersH mem (m_Ask match)))), [])
      | Some fromUser \<Rightarrow>
          (case Users ex (o_UserID (ordersH mem (m_Bid match))) of
             None \<Rightarrow> (Some (UserNotFound (o_UserID (ordersH mem (m_Bid match)))), [])
           | Some toUser \<Rightarrow>
               (let toAddress = PubkeyToAddress (u_PrivateKey toUser);
                    amount = int64_of_float64 (m_SizeFilled match);
                    (err, tr) = handleMatches ex mem matches
                in (err, TransferETH (u_PrivateKey fromUser) toAddress amount # tr))))"

subsection \<open>\<^verbatim>\<open>POST /order\<close>\<close>

text \<open>
  The decoded body is \<open>None\<close> when the JSON decoder fails. The order is constructed
  before the type of the request is looked at, and the two tests of the type follow
  each other as in the source.
\<close>

definition handlePlaceOrder ::
  "Engine \<Rightarrow> Exchange \<Rightarrow> Memory \<Rightarrow> PlaceOrderRequest option \<Rightarrow> handled" where
  "handlePlaceOrder eng ex mem decoded =
     (case decoded of
        None \<Rightarrow> (ReturnError DecodeError, ex, mem, [])
      | Some placeOrderData \<Rightarrow>
          (let market = r_Market placeOrderData
           in case NewOrder eng (r_Bid placeOrderData) (r_Size placeOrderData)
                     (r_UserID placeOrderData) mem of
                Inl f \<Rightarrow> (Panicked f, ex, mem, [])
              | Inr (order, mem1) \<Rightarrow>
                  (case (if r_Type placeOrderData = LimitOrder
                         then handlePlaceLimitOrder eng ex mem1 market
                                (r_Price placeOrderData) order
                         else (Inr None, ex, mem1, [])) of
                     (Inl f, ex2, mem2, tr2) \<Rightarrow> (Panicked f, ex2, mem2, tr2)
                   | (Inr (Some err), ex2, mem2, tr2) \<Rightarrow> (ReturnError err, ex2, mem2, tr2)
                   | (Inr None, ex2, mem2, tr2) \<Rightarrow>
                       (if r_Type placeOrderData = MarketOrder
                        then (case handlePlaceMarketOrder eng ex2 mem2 market order of
                                (Inl f, ex3, mem3, tr3) \<Rightarrow> (Panicked f, ex3, mem3, tr2 @ tr3)
                              | (Inr (matches, matchedOrders), ex3, mem3, tr3) \<Rightarrow>
                                  (case handleMatches ex3 mem3 matches of
                                     (Some err, tr4) \<Rightarrow>
                                       (ReturnError err, ex3, mem3, tr2 @ tr3 @ tr4)
                                   | (None, tr4) \<Rightarrow>
                                       (Respond 200
                                          (PlaceOrderResponse (o_ID (ordersH mem3 order))),
                                        ex3, mem3, tr2 @ tr3 @ tr4)))
                        else (Respond 200 (PlaceOrderResponse (o_ID (ordersH mem2 order))),
                              ex2, mem2, tr2)))))"


section \<open>The order book, from the specification\<close>

text \<open>
  Modelled from the spec: the \<^verbatim>\<open>orderbook\<close> package (\<^verbatim>\<open>NewOrder\<close>, \<^verbatim>\<open>IsFilled\<close>, \<^verbatim>\<open>Type\<close>,
  \<^verbatim>\<open>PlaceLimitOrder\<close>, \<^verbatim>\<open>PlaceMarketOrder\<close>, \<^verbatim>\<open>CancelOrder\<close>, \<^verbatim>\<open>Asks\<close>, \<^verbatim>\<open>Bids\<close> and the
  volume queries) is missing from the source files. The definitions of this section
  follow sections 3 and 4 of the specification, under the names used there.
\<close>

text \<open>
  Modelled from the spec: \<^verbatim>\<open>NewOrder\<close>. A freshly drawn unique id (a monotonic counter,
  section 5) and the current timestamp; fails only if the size is not positive.
\<close>

definition new_order :: "bool \<Rightarrow> real \<Rightarrow> int \<Rightarrow> Memory \<Rightarrow> failure + (order_ref \<times> Memory)" where
  "new_order bid sz user_id mem =
     (if sz \<le> 0 then Inl InvalidSize
      else (let r = fresh_order mem;
                ord = \<lparr>o_ID = next_id mem, o_UserID = user_id, o_Size = sz, o_Bid = bid,
                       o_Limit = None, o_Timestamp = clock mem\<rparr>
            in Inr (r, mem\<lparr>ordersH := (ordersH mem)(r := ord),
                           next_id := next_id mem + 1,
                           fresh_order := Suc r\<rparr>)))"

text \<open>Modelled from the spec: \<^verbatim>\<open>IsFilled\<close>, true iff the size is 0.\<close>

definition is_filled :: "order_ref \<Rightarrow> Memory \<Rightarrow> bool" where
  "is_filled r mem = (o_Size (ordersH mem r) = 0)"

text \<open>Modelled from the spec: \<^verbatim>\<open>Type\<close>, market for an order that is in no Limit.\<close>

definition order_type :: "order_ref \<Rightarrow> Memory \<Rightarrow> OrderType" where
  "order_type r mem = (if o_Limit (ordersH mem r) = None then MarketOrder else LimitOrder)"

text \<open>
  Modelled from the spec: \<^verbatim>\<open>add_order\<close> of a Limit (section 4.2), which appends the
  order to the queue, sets its limit reference and adds its size to the volume.
\<close>

definition add_order :: "limit_ref \<Rightarrow> order_ref \<Rightarrow> Memory \<Rightarrow> Memory" where
  "add_order l r mem =
     (let lim = limitsH mem l; ord = ordersH mem r
      in mem\<lparr>limitsH := (limitsH mem)
                 (l := lim\<lparr>l_Orders := l_Orders lim @ [r],
                           l_TotalVolume := l_TotalVolume lim + o_Size ord\<rparr>),
              ordersH := (ordersH mem)(r := ord\<lparr>o_Limit := Some l\<rparr>)\<rparr>)"

text \<open>
  Modelled from the spec: \<^verbatim>\<open>delete_order\<close> of a Limit (section 4.2), which removes the
  order from the queue, clears its limit reference and takes its size off the volume.
\<close>

definition delete_order :: "limit_ref \<Rightarrow> order_ref \<Rightarrow> Memory \<Rightarrow> Memory" where
  "delete_order l r mem =
     (let lim = limitsH mem l; ord = ordersH mem r
      in mem\<lparr>limitsH := (limitsH mem)
                 (l := lim\<lparr>l_Orders := remove1 r (l_Orders lim),
                           l_TotalVolume := l_TotalVolume lim - o_Size ord\<rparr>),
              ordersH := (ordersH mem)(r := ord\<lparr>o_Limit := None\<rparr>)\<rparr>)"

text \<open>
  Modelled from the spec: the position of a new Limit in its side, bids descending and
  asks ascending by price.
\<close>

fun insert_limit :: "Memory \<Rightarrow> bool \<Rightarrow> limit_ref \<Rightarrow> limit_ref list \<Rightarrow> limit_ref list" where
  "insert_limit mem bid l [] = [l]"
| "insert_limit mem bid l (k # ks) =
     (if (if bid then l_Price (limitsH mem k) < l_Price (limitsH mem l)
          else l_Price (limitsH mem l) < l_Price (limitsH mem k))
      then l # k # ks
      else k # insert_limit mem bid l ks)"

text \<open>Modelled from the spec: a Limit with an empty queue leaves its side and the price map.\<close>

definition clear_limit :: "book_ref \<Rightarrow> bool \<Rightarrow> limit_ref \<Rightarrow> Memory \<Rightarrow> Memory" where
  "clear_limit b bid l mem =
     (let ob = booksH mem b
      in if l_Orders (limitsH mem l) = []
         then mem\<lparr>booksH := (booksH mem)
                (b := (if bid
                       then ob\<lparr>book_bids := removeAll l (book_bids ob),
                               book_bid_limits :=
                                 (book_bid_limits ob)(l_Price (limitsH mem l) := None)\<rparr>
                       else ob\<lparr>book_asks := removeAll l (book_asks ob),
                               book_ask_limits :=
                                 (book_ask_limits ob)(l_Price (limitsH mem l) := None)\<rparr>))\<rparr>
         else mem)"

text \<open>Modelled from the spec: \<^verbatim>\<open>PlaceLimitOrder\<close>, steps 1 to 3 of section 4.3.\<close>

definition place_limit ::
  "book_ref option \<Rightarrow> real \<Rightarrow> order_ref \<Rightarrow> Memory \<Rightarrow> failure + Memory" where
  "place_limit book price r mem =
     (case book of
        None \<Rightarrow> Inl NilPointerDereference
      | Some b \<Rightarrow>
          (let ob = booksH mem b;
               bid = o_Bid (ordersH mem r);
               (l, mem1) =
                 (case (if bid then book_bid_limits ob else book_ask_limits ob) price of
                    Some l \<Rightarrow> (l, mem)
                  | None \<Rightarrow>
                      (let l = fresh_limit mem;
                           memL = mem\<lparr>limitsH := (limitsH mem)
                                     (l := \<lparr>l_Price = price, l_Orders = [],
                                            l_TotalVolume = 0\<rparr>),
                                   fresh_limit := Suc l\<rparr>
                       in (l, memL\<lparr>booksH := (booksH memL)
                                (b := (if bid
                                       then ob\<lparr>book_bids :=
                                                 insert_limit memL bid l (book_bids ob),
                                               book_bid_limits :=
                                                 (book_bid_limits ob)(price \<mapsto> l)\<rparr>
                                       else ob\<lparr>book_asks :=
                                                 insert_limit memL bid l (book_asks ob),
                                               book_ask_limits :=
                                                 (book_ask_limits ob)(price \<mapsto> l)\<rparr>))\<rparr>)));
               ob1 = booksH mem1 b;
               mem2 = mem1\<lparr>booksH := (booksH mem1)
                        (b := ob1\<lparr>book_Orders :=
                                   (book_Orders ob1)(o_ID (ordersH mem1 r) \<mapsto> r)\<rparr>)\<rparr>
           in Inr (add_order l r mem2)))"

text \<open>
  Modelled from the spec: the fill of one resting order by the incoming order (section
  4.3, step 3): the match, the two sizes and the volume of the Limit, and the removal
  of a resting order that is filled.
\<close>

definition fill_order ::
  "book_ref \<Rightarrow> limit_ref \<Rightarrow> order_ref \<Rightarrow> order_ref \<Rightarrow> Memory \<Rightarrow> Match \<times> Memory" where
  "fill_order b l incoming r mem =
     (let f = min (o_Size (ordersH mem r)) (o_Size (ordersH mem incoming));
          match = (if o_Bid (ordersH mem incoming)
                   then \<lparr>m_Ask = r, m_Bid = incoming, m_SizeFilled = f,
                         m_Price = l_Price (limitsH mem l)\<rparr>
                   else \<lparr>m_Ask = incoming, m_Bid = r, m_SizeFilled = f,
                         m_Price = l_Price (limitsH mem l)\<rparr>);
          h1 = (ordersH mem)(r := (ordersH mem r)\<lparr>o_Size := o_Size (ordersH mem r) - f\<rparr>);
          h2 = h1(incoming := (h1 incoming)\<lparr>o_Size := o_Size (h1 incoming) - f\<rparr>);
          lim = limitsH mem l;
          mem1 = mem\<lparr>ordersH := h2,
                     limitsH := (limitsH mem)
                       (l := lim\<lparr>l_TotalVolume := l_TotalVolume lim - f\<rparr>)\<rparr>;
          mem2 = (if o_Size (ordersH mem1 r) = 0
                  then (let lim1 = limitsH mem1 l; ob = booksH mem1 b
                        in mem1\<lparr>limitsH := (limitsH mem1)
                                   (l := lim1\<lparr>l_Orders := remove1 r (l_Orders lim1)\<rparr>),
                                 ordersH := (ordersH mem1)
                                   (r := (ordersH mem1 r)\<lparr>o_Limit := None\<rparr>),
                                 booksH := (booksH mem1)
                                   (b := ob\<lparr>book_Orders :=
                                             (book_Orders ob)
                                               (o_ID (ordersH mem1 r) := None)\<rparr>)\<rparr>)
                  else mem1)
      in (match, mem2))"

text \<open>
  Modelled from the spec: the walk through the queue of a Limit from its head. The walk
  stops when the incoming order is filled.
\<close>

fun fill_queue ::
  "book_ref \<Rightarrow> limit_ref \<Rightarrow> order_ref \<Rightarrow> order_ref list \<Rightarrow> Memory \<Rightarrow> Match list
     \<Rightarrow> Match list \<times> Memory" where
  "fill_queue b l incoming [] mem ms = (ms, mem)"
| "fill_queue b l incoming (r # rs) mem ms =
     (case fill_order b l incoming r mem of
        (match, mem1) \<Rightarrow>
          if o_Size (ordersH mem1 incoming) = 0 then (ms @ [match], mem1)
          else fill_queue b l incoming rs mem1 (ms @ [match]))"

text \<open>Modelled from the spec: the walk through the opposite side, best price first.\<close>

fun fill_side ::
  "book_ref \<Rightarrow> bool \<Rightarrow> order_ref \<Rightarrow> limit_ref list \<Rightarrow> Memory \<Rightarrow> Match list
     \<Rightarrow> Match list \<times> Memory" where
  "fill_side b side_bid incoming [] mem ms = (ms, mem)"
| "fill_side b side_bid incoming (l # ls) mem ms =
     (case fill_queue b l incoming (l_Orders (limitsH mem l)) mem ms of
        (ms1, mem1) \<Rightarrow>
          (let mem2 = clear_limit b side_bid l mem1
           in if o_Size (ordersH mem2 incoming) = 0 then (ms1, mem2)
              else fill_side b side_bid incoming ls mem2 ms1))"

text \<open>Modelled from the spec: the volume of a side, summed on demand.\<close>

definition side_volume :: "Memory \<Rightarrow> limit_ref list \<Rightarrow> real" where
  "side_volume mem ls = sum_list (map (\<lambda>l. l_TotalVolume (limitsH mem l)) ls)"

text \<open>Modelled from the spec: the Trade logged for a Match (section 4.3, step 4).\<close>

definition trade_of :: "Memory \<Rightarrow> bool \<Rightarrow> Match \<Rightarrow> Trade" where
  "trade_of mem taker_bid m =
     \<lparr>t_Price = m_Price m, t_Size = m_SizeFilled m, t_Bid = taker_bid,
      t_Timestamp = clock mem\<rparr>"

text \<open>Modelled from the spec: \<^verbatim>\<open>PlaceMarketOrder\<close>, steps 1 to 4 of section 4.3.\<close>

definition place_market ::
  "book_ref option \<Rightarrow> order_ref \<Rightarrow> Memory \<Rightarrow> failure + (Match list \<times> Memory)" where
  "place_market book incoming mem =
     (case book of
        None \<Rightarrow> Inl NilPointerDereference
      | Some b \<Rightarrow>
          (let ob = booksH mem b;
               bid = o_Bid (ordersH mem incoming);
               opposite = (if bid then book_asks ob else book_bids ob)
           in if side_volume mem opposite < o_Size (ordersH mem incoming)
              then Inl InsufficientLiquidity
              else (case fill_side b (\<not> bid) incoming opposite mem [] of
                      (matches, mem1) \<Rightarrow>
                        (let ob1 = booksH mem1 b
                         in Inr (matches,
                                 mem1\<lparr>booksH := (booksH mem1)
                                   (b := ob1\<lparr>book_Trades :=
                                              book_Trades ob1
                                                @ map (trade_of mem1 bid) matches\<rparr>)\<rparr>)))))"

text \<open>
  Modelled from the spec: \<^verbatim>\<open>CancelOrder\<close>. An order that is unknown (nil) or in no
  Limit is already gone: the cancellation is a no-op.
\<close>

definition cancel ::
  "book_ref option \<Rightarrow> order_ref option \<Rightarrow> Memory \<Rightarrow> failure + Memory" where
  "cancel book order mem =
     (case book of
        None \<Rightarrow> Inl NilPointerDereference
      | Some b \<Rightarrow>
          (case order of
             None \<Rightarrow> Inr mem
           | Some r \<Rightarrow>
               (case o_Limit (ordersH mem r) of
                  None \<Rightarrow> Inr mem
                | Some l \<Rightarrow>
                    (let mem1 = delete_order l r mem;
                         mem2 = clear_limit b (o_Bid (ordersH mem1 r)) l mem1;
                         ob = booksH mem2 b
                     in Inr (mem2\<lparr>booksH := (booksH mem2)
                               (b := ob\<lparr>book_Orders :=
                                         (book_Orders ob)
                                           (o_ID (ordersH mem2 r) := None)\<rparr>)\<rparr>)))))"

text \<open>
  Modelled from the spec: \<^verbatim>\<open>Asks\<close>, the ask side of the book, lowest price first. It is
  a query and changes nothing. A method called on a nil book has no field to read,
  which in Go is a nil pointer dereference; the same holds for the other methods.
\<close>

definition asks_of :: "book_ref option \<Rightarrow> Memory \<Rightarrow> failure + (limit_ref list \<times> Memory)" where
  "asks_of book mem =
     (case book of
        None \<Rightarrow> Inl NilPointerDereference
      | Some b \<Rightarrow> Inr (book_asks (booksH mem b), mem))"

text \<open>Modelled from the spec: \<^verbatim>\<open>Bids\<close>, the bid side of the book, highest price first.\<close>

definition bids_of :: "book_ref option \<Rightarrow> Memory \<Rightarrow> failure + (limit_ref list \<times> Memory)" where
  "bids_of book mem =
     (case book of
        None \<Rightarrow> Inl NilPointerDereference
      | Some b \<Rightarrow> Inr (book_bids (booksH mem b), mem))"

text \<open>Modelled from the spec: \<^verbatim>\<open>AskTotalVolume\<close>, the volume of the ask side.\<close>

definition ask_total_volume :: "book_ref option \<Rightarrow> Memory \<Rightarrow> failure + (real \<times> Memory)" where
  "ask_total_volume book mem =
     (case book of
        None \<Rightarrow> Inl NilPointerDereference
      | Some b \<Rightarrow> Inr (side_volume mem (book_asks (booksH mem b)), mem))"

text \<open>Modelled from the spec: \<^verbatim>\<open>BidTotalVolume\<close>, the volume of the bid side.\<close>

definition bid_total_volume :: "book_ref option \<Rightarrow> Memory \<Rightarrow> failure + (real \<times> Memory)" where
  "bid_total_volume book mem =
     (case book of
        None \<Rightarrow> Inl NilPointerDereference
      | Some b \<Rightarrow> Inr (side_volume mem (book_bids (booksH mem b)), mem))"

text \<open>
  Modelled from the spec: the \<^verbatim>\<open>orderbook\<close> package as a whole, the interface filled with
  the definitions of this section.
\<close>

definition spec_engine :: Engine where
  "spec_engine =
     \<lparr>NewOrder = new_order,
      IsFilled = is_filled,
      TypeOf = order_type,
      PlaceLimitOrder = place_limit,
      PlaceMarketOrder = place_market,
      CancelOrder = cancel,
      Asks = asks_of,
      Bids = bids_of,
      AskTotalVolume = ask_total_volume,
      BidTotalVolume = bid_total_volume\<rparr>"


section \<open>The exchange at start-up\<close>

text \<open>
  Modelled from the spec: \<^verbatim>\<open>NewOrderBook\<close>, an order book with no Limits, orders or
  trades. The store at start-up holds this book at address 0; ids start at 1.
\<close>

definition NewOrderBook :: Orderbook where
  "NewOrderBook =
     \<lparr>book_asks = [], book_bids = [], book_ask_limits = Map.empty,
      book_bid_limits = Map.empty, book_Orders = Map.empty, book_Trades = []\<rparr>"

definition start_memory :: Memory where
  "start_memory =
     \<lparr>ordersH = (\<lambda>_. \<lparr>o_ID = 0, o_UserID = 0, o_Size = 0, o_Bid = False,
                       o_Limit = None, o_Timestamp = 0\<rparr>),
      limitsH = (\<lambda>_. \<lparr>l_Price = 0, l_Orders = [], l_TotalVolume = 0\<rparr>),
      booksH = (\<lambda>_. NewOrderBook),
      next_id = 1, clock = 0, fresh_order = 0, fresh_limit = 0\<rparr>"

text \<open>\<^verbatim>\<open>NewExchange\<close> makes one order book, for the market \<^verbatim>\<open>"ETH"\<close>.\<close>

definition NewExchange :: "string \<Rightarrow> Exchange" where
  "NewExchange privateKey =
     \<lparr>Users = Map.empty, Orders = Map.empty, ex_PrivateKey = HexToECDSA privateKey,
      orderbooks = [MarketETH \<mapsto> 0]\<rparr>"

definition registerUser :: "string \<Rightarrow> int \<Rightarrow> Exchange \<Rightarrow> Exchange" where
  "registerUser pk userID ex =
     ex\<lparr>Users := (Users ex)(userID \<mapsto> \<lparr>u_ID = userID, u_PrivateKey = HexToECDSA pk\<rparr>)\<rparr>"

text \<open>The exchange as \<^verbatim>\<open>StartServer\<close> sets it up, with its three users.\<close>

definition start_exchange :: Exchange where
  "start_exchange =
     registerUser ''ELON_MUSK_PK'' 1
       (registerUser ''USER_2_PK'' 6667
          (registerUser ''USER_1_PK'' 8888 (NewExchange ''EXCHANGE_PK'')))"

section \<open>An example book\<close>

text \<open>
  The book of scenario S2 of the specification: three resting sell orders, of size 3
  at 101 (id 1, user 8888), at 100 (id 2, user 6667) and at 102 (id 3, user 6667). The
  order at address 3 is an incoming buy order of size 5 of user 1, constructed and not
  yet placed.
\<close>

definition book_memory :: Memory where
  "book_memory =
     \<lparr>ordersH = (ordersH start_memory)
        (0 := \<lparr>o_ID = 1, o_UserID = 8888, o_Size = 3, o_Bid = False, o_Limit = Some 0,
               o_Timestamp = 0\<rparr>,
         1 := \<lparr>o_ID = 2, o_UserID = 6667, o_Size = 3, o_Bid = False, o_Limit = Some 1,
               o_Timestamp = 0\<rparr>,
         2 := \<lparr>o_ID = 3, o_UserID = 6667, o_Size = 3, o_Bid = False, o_Limit = Some 2,
               o_Timestamp = 0\<rparr>,
         3 := \<lparr>o_ID = 4, o_UserID = 1, o_Size = 5, o_Bid = True, o_Limit = None,
               o_Timestamp = 0\<rparr>),
      limitsH = (limitsH start_memory)
        (0 := \<lparr>l_Price = 101, l_Orders = [0], l_TotalVolume = 3\<rparr>,
         1 := \<lparr>l_Price = 100, l_Orders = [1], l_TotalVolume = 3\<rparr>,
         2 := \<lparr>l_Price = 102, l_Orders = [2], l_TotalVolume = 3\<rparr>),
      booksH = (booksH start_memory)
        (0 := \<lparr>book_asks = [1, 0, 2], book_bids = [],
               book_ask_limits = [101 \<mapsto> 0, 100 \<mapsto> 1, 102 \<mapsto> 2],
               book_bid_limits = Map.empty,
               book_Orders = [1 \<mapsto> 0, 2 \<mapsto> 1, 3 \<mapsto> 2],
               book_Trades = []\<rparr>),
      next_id = 5, clock = 0, fresh_order = 4, fresh_limit = 3\<rparr>"

definition book_exchange :: Exchange where
  "book_exchange = start_exchange\<lparr>Orders := [8888 \<mapsto> [0], 6667 \<mapsto> [1, 2]]\<rparr>"

text \<open>The matches of the incoming buy order against this book.\<close>

definition example_matches :: "Match list" where
  "example_matches =
     [\<lparr>m_Ask = 1, m_Bid = 3, m_SizeFilled = 3, m_Price = 100\<rparr>,
      \<lparr>m_Ask = 0, m_Bid = 3, m_SizeFilled = 2, m_Price = 101\<rparr>]"

section \<open>Notions of the specification\<close>

text \<open>The average prices logged by a handler, in the order of its log lines.\<close>

definition logged_avgPrice :: "event list \<Rightarrow> float64 list" where
  "logged_avgPrice tr =
     concat (map (\<lambda>e. case e of LogFilledMarketOrder avgPrice _ _ \<Rightarrow> [avgPrice] | _ \<Rightarrow> []) tr)"

text \<open>
  The sum of a list of \<^verbatim>\<open>float64\<close> values, added from left to right to a positive zero
  with the addition of \<^verbatim>\<open>float64\<close>.
\<close>

definition float64_sum :: "real list \<Rightarrow> float64" where
  "float64_sum xs = foldl (\<lambda>acc x. float_add acc (Finite x)) (Finite 0) xs"

text \<open>
  In exact arithmetic: the unweighted mean of the match prices, and the size-weighted
  average (VWAP).
\<close>

definition mean_price :: "Match list \<Rightarrow> real" where
  "mean_price ms = sum_list (map m_Price ms) / real (length ms)"

definition vwap :: "Match list \<Rightarrow> real" where
  "vwap ms =
     sum_list (map (\<lambda>m. m_Price m * m_SizeFilled m) ms) / sum_list (map m_SizeFilled ms)"

text \<open>
  The orders the exchange keeps for a user, the orders among them that rest in a Limit,
  and the rendering of an order for the wire: the price is the price of the Limit that
  holds the order, the size is the size the order has now.
\<close>

definition user_orders :: "Exchange \<Rightarrow> int \<Rightarrow> order_ref list" where
  "user_orders ex userID = (case Orders ex userID of None \<Rightarrow> [] | Some rs \<Rightarrow> rs)"

definition is_resting :: "Memory \<Rightarrow> order_ref \<Rightarrow> bool" where
  "is_resting mem r = (o_Limit (ordersH mem r) \<noteq> None)"

definition wire_order :: "Memory \<Rightarrow> order_ref \<Rightarrow> Order" where
  "wire_order mem r =
     \<lparr>UserID = o_UserID (ordersH mem r),
      ID = o_ID (ordersH mem r),
      Price = (case o_Limit (ordersH mem r) of None \<Rightarrow> 0 | Some l \<Rightarrow> l_Price (limitsH mem l)),
      Size = o_Size (ordersH mem r),
      Bid = o_Bid (ordersH mem r),
      Timestamp = o_Timestamp (ordersH mem r)\<rparr>"

text \<open>The example book after \<^verbatim>\<open>DELETE /order/2\<close>: the order with id 2 is in no Limit.\<close>

definition cancelled_memory :: Memory where
  "cancelled_memory = fst (snd (snd (cancelOrder spec_engine book_exchange book_memory ''2'')))"

text \<open>
  Three requests on the example book: one whose type is neither \<^verbatim>\<open>"LIMIT"\<close> nor
  \<^verbatim>\<open>"MARKET"\<close>, a market buy of size 5 for user 1, and a limit buy of size 2 at 99 for
  user 8888.
\<close>

definition stop_request :: PlaceOrderRequest where
  "stop_request =
     \<lparr>r_UserID = 1, r_Type = ''STOP'', r_Bid = True, r_Size = 5, r_Price = 0,
      r_Market = MarketETH\<rparr>"

definition market_request :: PlaceOrderRequest where
  "market_request =
     \<lparr>r_UserID = 1, r_Type = MarketOrder, r_Bid = True, r_Size = 5, r_Price = 0,
      r_Market = MarketETH\<rparr>"

definition limit_request :: PlaceOrderRequest where
  "limit_request =
     \<lparr>r_UserID = 8888, r_Type = LimitOrder, r_Bid = True, r_Size = 2, r_Price = 99,
      r_Market = MarketETH\<rparr>"

text \<open>
  A match is settled when both its users are registered. Its transfer goes from the key
  of the ask's user to the address of the bid's user, and the amount is the size filled,
  converted to \<^verbatim>\<open>int64\<close>.
\<close>

definition registered :: "Exchange \<Rightarrow> Memory \<Rightarrow> Match \<Rightarrow> bool" where
  "registered ex mem m =
     (Users ex (o_UserID (ordersH mem (m_Ask m))) \<noteq> None
      \<and> Users ex (o_UserID (ordersH mem (m_Bid m))) \<noteq> None)"

definition key_of :: "Exchange \<Rightarrow> int \<Rightarrow> PrivateKey" where
  "key_of ex userID =
     (case Users ex userID of None \<Rightarrow> HexToECDSA [] | Some user \<Rightarrow> u_PrivateKey user)"

definition transfer_of :: "Exchange \<Rightarrow> Memory \<Rightarrow> Match \<Rightarrow> event" where
  "transfer_of ex mem m =
     TransferETH (key_of ex (o_UserID (ordersH mem (m_Ask m))))
       (PubkeyToAddress (key_of ex (o_UserID (ordersH mem (m_Bid m)))))
       (int64_of_float64 (m_SizeFilled m))"

definition missing_user :: "Exchange \<Rightarrow> Memory \<Rightarrow> Match \<Rightarrow> int" where
  "missing_user ex mem m =
     (if Users ex (o_UserID (ordersH mem (m_Ask m))) = None
      then o_UserID (ordersH mem (m_Ask m)) else o_UserID (ordersH mem (m_Bid m)))"

text \<open>An exchange on which user 8888 is not registered, and matches with fractional sizes.\<close>

definition two_user_exchange :: Exchange where
  "two_user_exchange =
     registerUser ''ELON_MUSK_PK'' 1 (registerUser ''USER_2_PK'' 6667 (NewExchange ''EXCHANGE_PK''))"

definition fractional_matches :: "Match list" where
  "fractional_matches =
     [\<lparr>m_Ask = 1, m_Bid = 3, m_SizeFilled = 7 / 2, m_Price = 100\<rparr>,
      \<lparr>m_Ask = 0, m_Bid = 3, m_SizeFilled = 3 / 2, m_Price = 101\<rparr>,
      \<lparr>m_Ask = 2, m_Bid = 3, m_SizeFilled = 1, m_Price = 102\<rparr>]"

text \<open>
  A trace settles outside the engine and the lock when every call of \<^verbatim>\<open>transferETH\<close> in
  it comes after the last call of \<^verbatim>\<open>PlaceMarketOrder\<close> has returned and while the
  exchange mutex is not held. The two flags say whether the engine call has returned and
  whether the mutex is held.
\<close>

fun settled_outside :: "bool \<Rightarrow> bool \<Rightarrow> event list \<Rightarrow> bool" where
  "settled_outside returned locked [] = True"
| "settled_outside returned locked (Enter OpPlaceMarketOrder # es) = settled_outside False locked es"
| "settled_outside returned locked (Leave OpPlaceMarketOrder # es) = settled_outside True locked es"
| "settled_outside returned locked (Lock # es) = settled_outside returned True es"
| "settled_outside returned locked (Unlock # es) = settled_outside returned False es"
| "settled_outside returned locked (RLock # es) = settled_outside returned True es"
| "settled_outside returned locked (RUnlock # es) = settled_outside returned False es"
| "settled_outside returned locked (TransferETH k a n # es) =
     (returned \<and> \<not> locked \<and> settled_outside returned locked es)"
| "settled_outside returned locked (e # es) = settled_outside returned locked es"

text \<open>
  Every id in the order map of a book was drawn before: it is below the counter. A step
  of the order book keeps the ids when it changes no order's id, leaves the counter, and
  adds no key to the order map of a book.
\<close>

definition ids_below :: "Memory \<Rightarrow> bool" where
  "ids_below mem = (\<forall>b i. i \<in> dom (book_Orders (booksH mem b)) \<longrightarrow> i < next_id mem)"

definition keeps_ids :: "Memory \<Rightarrow> Memory \<Rightarrow> bool" where
  "keeps_ids mem mem' =
     ((\<forall>r. o_ID (ordersH mem' r) = o_ID (ordersH mem r))
      \<and> next_id mem' = next_id mem
      \<and> (\<forall>b. dom (book_Orders (booksH mem' b)) \<subseteq> dom (book_Orders (booksH mem b))))"

section \<open>Scenarios\<close>

text \<open>
  A request for the market \<^verbatim>\<open>"ETH"\<close>, and a sequence of requests handled one after the
  other with the order book of the specification.
\<close>

definition order_request :: "OrderType \<Rightarrow> bool \<Rightarrow> real \<Rightarrow> real \<Rightarrow> int \<Rightarrow> PlaceOrderRequest" where
  "order_request ty bid sz price user =
     \<lparr>r_UserID = user, r_Type = ty, r_Bid = bid, r_Size = sz, r_Price = price,
      r_Market = MarketETH\<rparr>"

fun place_all :: "Exchange \<times> Memory \<Rightarrow> PlaceOrderRequest list \<Rightarrow> Exchange \<times> Memory" where
  "place_all s [] = s"
| "place_all (ex, mem) (d # ds) =
     (case handlePlaceOrder spec_engine ex mem (Some d) of
        (out, ex', mem', tr) \<Rightarrow> place_all (ex', mem') ds)"

text \<open>The three limit orders of scenario S2, placed on the exchange at start-up.\<close>

definition S2_book :: "Exchange \<times> Memory" where
  "S2_book =
     place_all (start_exchange, start_memory)
       [order_request LimitOrder False 3 101 8888,
        order_request LimitOrder False 3 100 6667,
        order_request LimitOrder False 3 102 6667]"

section \<open>Properties of the handlers\<close>

lemmas example_defs =
  book_memory_def book_exchange_def start_memory_def start_exchange_def NewExchange_def
  registerUser_def NewOrderBook_def MarketETH_def example_matches_def

lemmas engine_defs =
  spec_engine_def new_order_def is_filled_def order_type_def place_limit_def place_market_def
  cancel_def add_order_def delete_order_def fill_order_def clear_limit_def side_volume_def
  trade_of_def asks_of_def bids_of_def ask_total_volume_def bid_total_volume_def Let_def

subsection \<open>Rounding\<close>

lemma floor_log2:
  assumes "2 powi k \<le> a" and "a < 2 powi (k + 1)"
  shows "\<lfloor>log 2 a\<rfloor> = k"
proof -
  have pos: "0 < a"
    using assms(1) by (smt (verit) zero_less_power_int)
  have "2 powr (of_int k) \<le> a" and "a < 2 powr (of_int k + 1)"
    using assms powr_real_of_int' [of 2 k] powr_real_of_int' [of 2 "k + 1"] by simp_all
  then have "of_int k \<le> log 2 a" and "log 2 a < of_int k + 1"
    using pos by (simp_all add: le_log_iff log_less_iff)
  then show ?thesis
    by (simp add: floor_unique)
qed

text \<open>The rounding of a value whose leading bit is known.\<close>

lemma round64_at:
  assumes "x \<noteq> 0" and "2 powi k \<le> \<bar>x\<bar>" and "\<bar>x\<bar> < 2 powi (k + 1)"
  shows "round64 x =
     (let q = 2 powi (max k (- 1022) - 52);
          r = of_int (round_half_even (\<bar>x\<bar> / q)) * q
      in if 2 ^ 1024 \<le> r then (if 0 < x then PosInf else NegInf)
         else if r = 0 then (if 0 < x then Finite 0 else NegZero)
         else Finite (if 0 < x then r else - r))"
proof -
  have e: "\<lfloor>log 2 \<bar>x\<bar>\<rfloor> = k"
    using assms(2,3) by (rule floor_log2)
  show ?thesis
    by (simp only: round64_def Let_def e assms(1) if_False)
qed

text \<open>The numbers of the example book are representable: rounding leaves them as they are.\<close>

lemma round64_examples:
  "round64 2 = Finite 2" "round64 3 = Finite 3" "round64 5 = Finite 5"
  "round64 100 = Finite 100" "round64 201 = Finite 201" "round64 (201 / 2) = Finite (201 / 2)"
  using round64_at [of 2 1] round64_at [of 3 1] round64_at [of 5 2] round64_at [of 100 6]
    round64_at [of 201 7] round64_at [of "201 / 2" 6]
  by (simp_all add: round_half_even_def Let_def)

lemmas float_defs =
  float_add_def float_div_def float64_of_nat_def float64_sum_def is_negative_def
  is_infinite_def is_zero_def value_of_def signed_zero_def signed_inf_def

subsection \<open>The average price of a market fill\<close>

lemma matches_loop_eq:
  "matches_loop mem isBid ms (mos, t, s) =
     (mos @ map (\<lambda>m. \<lparr>mo_UserID = o_UserID (ordersH mem (if isBid then m_Ask m else m_Bid m)),
                     mo_Price = m_Price m, mo_Size = m_SizeFilled m,
                     mo_ID = o_ID (ordersH mem (if isBid then m_Ask m else m_Bid m))\<rparr>) ms,
      foldl (\<lambda>acc x. float_add acc (Finite x)) t (map m_SizeFilled ms),
      foldl (\<lambda>acc x. float_add acc (Finite x)) s (map m_Price ms))"
  by (induction ms arbitrary: mos t s) (simp_all add: Let_def)

lemma float_div_exact:
  assumes "0 < n" and "round64 (x / n) = Finite (x / n)"
  shows "float_div (Finite x) (Finite n) = Finite (x / n)"
  using assms by (simp add: float_defs)

text \<open>
  Claim C1. For the matches that the order book returns for a market order, the average
  price that \<^verbatim>\<open>handlePlaceMarketOrder\<close> logs is the sum of the prices of the matches,
  added up from left to right in \<^verbatim>\<open>float64\<close>, divided in \<^verbatim>\<open>float64\<close> by the number of the
  matches: the sizes filled do not enter. With at least one match, and when the sum,
  the count and the quotient are exact in \<^verbatim>\<open>float64\<close>, this is the unweighted arithmetic
  mean of the prices; with no match it is NaN.
\<close>

theorem avgPrice_is_unweighted_mean:
  assumes "PlaceMarketOrder eng (orderbooks ex market) order mem = Inr (matches, mem1)"
  shows "logged_avgPrice (snd (snd (snd (handlePlaceMarketOrder eng ex mem market order))))
           = [float_div (float64_sum (map m_Price matches)) (float64_of_nat (length matches))]
       \<and> (matches \<noteq> [] \<longrightarrow>
            float64_sum (map m_Price matches) = Finite (sum_list (map m_Price matches)) \<longrightarrow>
            float64_of_nat (length matches) = Finite (real (length matches)) \<longrightarrow>
            round64 (mean_price matches) = Finite (mean_price matches) \<longrightarrow>
            logged_avgPrice (snd (snd (snd (handlePlaceMarketOrder eng ex mem market order))))
              = [Finite (mean_price matches)])
       \<and> (matches = [] \<longrightarrow>
            logged_avgPrice (snd (snd (snd (handlePlaceMarketOrder eng ex mem market order))))
              = [NaN])"
proof -
  have logged:
    "logged_avgPrice (snd (snd (snd (handlePlaceMarketOrder eng ex mem market order))))
       = [float_div (float64_sum (map m_Price matches)) (float64_of_nat (length matches))]"
    using assms
    by (simp add: handlePlaceMarketOrder_def matches_loop_eq logged_avgPrice_def
        float64_sum_def Let_def)
  have exact: "float_div (float64_sum (map m_Price matches)) (float64_of_nat (length matches))
                 = Finite (mean_price matches)"
    if "matches \<noteq> []"
      and "float64_sum (map m_Price matches) = Finite (sum_list (map m_Price matches))"
      and "float64_of_nat (length matches) = Finite (real (length matches))"
      and "round64 (mean_price matches) = Finite (mean_price matches)"
    using that float_div_exact [of "real (length matches)" "sum_list (map m_Price matches)"]
    by (simp add: mean_price_def)
  have none: "float_div (float64_sum (map m_Price matches)) (float64_of_nat (length matches)) = NaN"
    if "matches = []"
    using that by (simp add: float_defs round64_def)
  from logged exact none show ?thesis
    by simp
qed

lemma place_market_example:
  "\<exists>mem1. PlaceMarketOrder spec_engine (orderbooks book_exchange MarketETH) 3 book_memory
             = Inr (example_matches, mem1)"
  by (simp add: example_defs engine_defs)

text \<open>
  On the example book the sum 201, the count 2 and the quotient are exact: the logged
  value is the mean 100.5, and the size-weighted average of the same matches is 100.4.
\<close>

theorem avgPrice_is_unweighted_mean_witness:
  "(\<exists>mem1. PlaceMarketOrder spec_engine (orderbooks book_exchange MarketETH) 3 book_memory
             = Inr (example_matches, mem1))
   \<and> example_matches \<noteq> []
   \<and> float64_sum (map m_Price example_matches) = Finite (sum_list (map m_Price example_matches))
   \<and> float64_of_nat (length example_matches) = Finite (real (length example_matches))
   \<and> round64 (mean_price example_matches) = Finite (mean_price example_matches)
   \<and> logged_avgPrice (snd (snd (snd
        (handlePlaceMarketOrder spec_engine book_exchange book_memory MarketETH 3))))
        = [Finite (mean_price example_matches)]
   \<and> mean_price example_matches = 201 / 2
   \<and> vwap example_matches = 502 / 5"
proof -
  obtain mem1 where run:
    "PlaceMarketOrder spec_engine (orderbooks book_exchange MarketETH) 3 book_memory
       = Inr (example_matches, mem1)"
    using place_market_example by blast
  have ne: "example_matches \<noteq> []"
    by (simp add: example_matches_def)
  have mean: "mean_price example_matches = 201 / 2" and "vwap example_matches = 502 / 5"
    by (simp_all add: mean_price_def vwap_def example_matches_def)
  have sum: "float64_sum (map m_Price example_matches)
               = Finite (sum_list (map m_Price example_matches))"
    by (simp add: example_matches_def float_defs round64_examples)
  have count: "float64_of_nat (length example_matches) = Finite (real (length example_matches))"
    by (simp add: example_matches_def float_defs round64_examples)
  have quotient: "round64 (mean_price example_matches) = Finite (mean_price example_matches)"
    by (simp add: mean round64_examples)
  from avgPrice_is_unweighted_mean [OF run] ne sum count quotient
  have "logged_avgPrice (snd (snd (snd
        (handlePlaceMarketOrder spec_engine book_exchange book_memory MarketETH 3))))
        = [Finite (mean_price example_matches)]"
    by blast
  with run ne sum count quotient mean \<open>vwap example_matches = 502 / 5\<close> show ?thesis
    by blast
qed

text \<open>
  Rounding shows for the prices 0.1 and 0.2, that is for the \<^verbatim>\<open>float64\<close> values nearest to
  them: their sum is rounded up to the even neighbour, and the logged average is
  0.15000000000000002, above the exact mean of the two values.
\<close>

lemma avgPrice_rounded_example:
  "float_div (float64_sum [3602879701896397 / 2 ^ 55, 3602879701896397 / 2 ^ 54])
     (float64_of_nat 2) = Finite (1351079888211149 / 2 ^ 53)"
  "(3602879701896397 / 2 ^ 55 + 3602879701896397 / 2 ^ 54) / 2
     < (1351079888211149 / 2 ^ 53 :: real)"
proof -
  have first: "round64 (3602879701896397 / 2 ^ 55) = Finite (3602879701896397 / 2 ^ 55)"
    using round64_at [of "3602879701896397 / 2 ^ 55" "- 4"]
    by (simp add: round_half_even_def Let_def)
  have sum: "round64 (3602879701896397 / 2 ^ 55 + 3602879701896397 / 2 ^ 54)
               = Finite (5404319552844596 / 2 ^ 54)"
    using round64_at [of "3602879701896397 / 2 ^ 55 + 3602879701896397 / 2 ^ 54" "- 2"]
    by (simp add: round_half_even_def Let_def)
  have quotient: "round64 (5404319552844596 / 2 ^ 54 / 2) = Finite (1351079888211149 / 2 ^ 53)"
    using round64_at [of "5404319552844596 / 2 ^ 54 / 2" "- 3"]
    by (simp add: round_half_even_def Let_def)
  have two: "round64 2 = Finite 2"
    by (rule round64_examples)
  show "float_div (float64_sum [3602879701896397 / 2 ^ 55, 3602879701896397 / 2 ^ 54])
     (float64_of_nat 2) = Finite (1351079888211149 / 2 ^ 53)"
    using first sum quotient two by (simp add: float_defs)
  show "(3602879701896397 / 2 ^ 55 + 3602879701896397 / 2 ^ 54) / 2
     < (1351079888211149 / 2 ^ 53 :: real)"
    by simp
qed

text \<open>
  Overflow shows for two matches at the price \<open>2 ^ 1023\<close>: their sum is an infinity, and
  so is the logged average, while the exact mean is the price itself.
\<close>

lemma avgPrice_overflow_example:
  "float_div (float64_sum [2 ^ 1023, 2 ^ 1023]) (float64_of_nat 2) = PosInf"
proof -
  have first: "round64 (2 ^ 1023) = Finite (2 ^ 1023)"
    using round64_at [of "2 ^ 1023" 1023] by (simp add: round_half_even_def Let_def)
  have sum: "round64 (2 ^ 1023 + 2 ^ 1023) = PosInf"
    using round64_at [of "2 ^ 1023 + 2 ^ 1023" 1024] by (simp add: round_half_even_def Let_def)
  have two: "round64 2 = Finite 2"
    by (rule round64_examples)
  show ?thesis
    using first sum two by (simp add: float_defs)
qed

subsection \<open>Pruning of filled orders\<close>

lemma prune_user_eq:
  "prune_user filled rs entry =
     (if filter (\<lambda>r. \<not> filled r) rs = [] then entry
      else Some ((case entry of None \<Rightarrow> [] | Some ks \<Rightarrow> ks) @ filter (\<lambda>r. \<not> filled r) rs))"
  by (induction rs arbitrary: entry) (auto split: option.splits)

lemma prune_orders_eq:
  "prune_orders filled ordersMap userID =
     (case ordersMap userID of
        None \<Rightarrow> None
      | Some rs \<Rightarrow> (if filter (\<lambda>r. \<not> filled r) rs = [] then None
                   else Some (filter (\<lambda>r. \<not> filled r) rs)))"
  by (simp add: prune_orders_def prune_user_eq split: option.splits)

text \<open>
  Claim C8. After a call of \<^verbatim>\<open>handlePlaceMarketOrder\<close> that completes, no list of
  \<^verbatim>\<open>Exchange.Orders\<close> holds an order for which \<^verbatim>\<open>IsFilled()\<close> is true, every order of
  the old map that is not filled is in the list of the same user, and each list of the
  new map is the list of the old map without its filled orders.
\<close>

theorem filled_orders_pruned:
  assumes "handlePlaceMarketOrder eng ex mem market order = (Inr res, ex', mem', tr)"
  shows "(\<forall>userID rs r. Orders ex' userID = Some rs \<longrightarrow> r \<in> set rs \<longrightarrow> \<not> IsFilled eng r mem')
       \<and> (\<forall>userID rs r. Orders ex userID = Some rs \<longrightarrow> r \<in> set rs \<longrightarrow> \<not> IsFilled eng r mem'
             \<longrightarrow> (\<exists>rs'. Orders ex' userID = Some rs' \<and> r \<in> set rs'))
       \<and> (\<forall>userID rs'. Orders ex' userID = Some rs'
             \<longrightarrow> (\<exists>rs. Orders ex userID = Some rs \<and> rs' = filter (\<lambda>r. \<not> IsFilled eng r mem') rs))"
proof -
  from assms obtain matches where
    run: "PlaceMarketOrder eng (orderbooks ex market) order mem = Inr (matches, mem')"
    and ex': "ex' = ex\<lparr>Orders := prune_orders (\<lambda>r. IsFilled eng r mem') (Orders ex)\<rparr>"
    by (auto simp: handlePlaceMarketOrder_def Let_def split: sum.splits prod.splits)
  have orders: "Orders ex' = prune_orders (\<lambda>r. IsFilled eng r mem') (Orders ex)"
    by (simp add: ex')
  show ?thesis
    unfolding orders
    by (auto simp: prune_orders_eq filter_empty_conv split: option.splits if_splits)
qed

lemma market_order_example:
  "\<exists>res ex' mem' tr.
     handlePlaceMarketOrder spec_engine book_exchange book_memory MarketETH 3
       = (Inr res, ex', mem', tr)
     \<and> Orders ex' 6667 = Some [2] \<and> Orders ex' 8888 = Some [0]
     \<and> o_Size (ordersH mem' 1) = 0 \<and> o_Size (ordersH mem' 0) = 1"
  by (simp add: handlePlaceMarketOrder_def example_defs engine_defs matches_loop_eq
      prune_orders_def)

text \<open>
  On the example book the market order fills the order at address 1 (size 0 afterwards):
  user 6667 keeps the order at address 2, user 8888 the partly filled order at address 0.
\<close>

theorem filled_orders_pruned_witness:
  "\<exists>res ex' mem' tr.
     handlePlaceMarketOrder spec_engine book_exchange book_memory MarketETH 3
       = (Inr res, ex', mem', tr)
     \<and> (\<forall>userID rs r. Orders ex' userID = Some rs \<longrightarrow> r \<in> set rs
           \<longrightarrow> \<not> IsFilled spec_engine r mem')
     \<and> Orders book_exchange 6667 = Some [1, 2] \<and> IsFilled spec_engine 1 mem'
     \<and> Orders ex' 6667 = Some [2] \<and> Orders ex' 8888 = Some [0]"
proof -
  obtain res ex' mem' tr where
    run: "handlePlaceMarketOrder spec_engine book_exchange book_memory MarketETH 3
            = (Inr res, ex', mem', tr)"
    and after: "Orders ex' 6667 = Some [2]" "Orders ex' 8888 = Some [0]"
      "o_Size (ordersH mem' 1) = 0"
    using market_order_example by blast
  have "Orders book_exchange 6667 = Some [1, 2]"
    by (simp add: book_exchange_def)
  moreover have "IsFilled spec_engine 1 mem'"
    using after by (simp add: spec_engine_def is_filled_def)
  ultimately show ?thesis
    using filled_orders_pruned [OF run] run after by blast
qed

subsection \<open>The orders of a user\<close>

lemma orders_loop_eq:
  "orders_loop mem rs (asks, bids, tr) =
     (asks @ map (wire_order mem) (filter (\<lambda>r. is_resting mem r \<and> \<not> o_Bid (ordersH mem r)) rs),
      bids @ map (wire_order mem) (filter (\<lambda>r. is_resting mem r \<and> o_Bid (ordersH mem r)) rs),
      tr @ map LogNilLimit (filter (\<lambda>r. \<not> is_resting mem r) rs))"
  by (induction rs arbitrary: asks bids tr)
     (auto simp: is_resting_def wire_order_def Let_def split: option.splits)

text \<open>
  Claim C5. For a \<^verbatim>\<open>GET /order/{userID}\<close> request whose user id parses, the response
  holds exactly the orders kept for that user whose limit reference is not nil, in
  their order: those with the bid flag in \<^verbatim>\<open>Bids\<close>, the others in \<^verbatim>\<open>Asks\<close>, each with
  the price of its Limit and its current size. Orders with a nil limit reference are
  skipped (and printed).
\<close>

theorem get_orders_lists_resting_orders:
  assumes "Atoi userIDStr = (userID, None)"
  shows "handleGetOrders ex mem userIDStr =
           (Respond 200
              (GetOrdersResponse
                 (map (wire_order mem)
                    (filter (\<lambda>r. is_resting mem r \<and> \<not> o_Bid (ordersH mem r))
                       (user_orders ex userID)))
                 (map (wire_order mem)
                    (filter (\<lambda>r. is_resting mem r \<and> o_Bid (ordersH mem r))
                       (user_orders ex userID)))),
            ex, mem,
            [RLock] @ map LogNilLimit (filter (\<lambda>r. \<not> is_resting mem r) (user_orders ex userID))
              @ [RUnlock])
       \<and> (\<forall>r l. o_Limit (ordersH mem r) = Some l \<longrightarrow>
             Price (wire_order mem r) = l_Price (limitsH mem l)
             \<and> Size (wire_order mem r) = o_Size (ordersH mem r)
             \<and> ID (wire_order mem r) = o_ID (ordersH mem r)
             \<and> UserID (wire_order mem r) = o_UserID (ordersH mem r))"
  using assms
  by (simp add: handleGetOrders_def user_orders_def orders_loop_eq wire_order_def Let_def)

lemma cancelled_memory_orders:
  "o_Limit (ordersH cancelled_memory 1) = None"
  "o_Limit (ordersH cancelled_memory 2) = Some 2"
  "ordersH cancelled_memory 2 = ordersH book_memory 2"
  "limitsH cancelled_memory 2 = limitsH book_memory 2"
  by (simp_all add: cancelled_memory_def cancelOrder_def Atoi_def digit_val_def example_defs
      engine_defs)

theorem get_orders_lists_resting_orders_witness:
  "Atoi ''6667'' = (6667, None)
   \<and> user_orders book_exchange 6667 = [1, 2]
   \<and> \<not> is_resting cancelled_memory 1
   \<and> fst (handleGetOrders book_exchange cancelled_memory ''6667'') =
       Respond 200 (GetOrdersResponse
         [\<lparr>UserID = 6667, ID = 3, Price = 102, Size = 3, Bid = False, Timestamp = 0\<rparr>] [])"
proof -
  have parse: "Atoi ''6667'' = (6667, None)"
    by (simp add: Atoi_def digit_val_def)
  have os: "user_orders book_exchange 6667 = [1, 2]"
    by (simp add: user_orders_def book_exchange_def)
  have gone: "\<not> is_resting cancelled_memory 1" and rest: "is_resting cancelled_memory 2"
    using cancelled_memory_orders(1,2) by (simp_all add: is_resting_def)
  have w: "wire_order cancelled_memory 2
             = \<lparr>UserID = 6667, ID = 3, Price = 102, Size = 3, Bid = False, Timestamp = 0\<rparr>"
    using cancelled_memory_orders(2)
    by (simp add: wire_order_def cancelled_memory_orders(3,4)) (simp add: example_defs)
  have b: "\<not> o_Bid (ordersH cancelled_memory 2)"
    by (simp add: cancelled_memory_orders(3)) (simp add: example_defs)
  from get_orders_lists_resting_orders [OF parse, of book_exchange cancelled_memory]
  have "fst (handleGetOrders book_exchange cancelled_memory ''6667'') =
       Respond 200 (GetOrdersResponse
         [\<lparr>UserID = 6667, ID = 3, Price = 102, Size = 3, Bid = False, Timestamp = 0\<rparr>] [])"
    using gone rest w b by (simp add: os)
  with parse os gone show ?thesis by blast
qed

subsection \<open>Top of the book\<close>

text \<open>
  Claim C4. On an existing market: when \<^verbatim>\<open>Bids()\<close> (respectively \<^verbatim>\<open>Asks()\<close>) returns an
  empty side, the response is the zero-valued \<^verbatim>\<open>Order\<close> (price 0, user 0); otherwise,
  with \<open>l\<close> the first Limit of the side as the second call returns it and \<open>r\<close> the head
  of its queue, the response carries the price of \<open>l\<close> and the user id of \<open>r\<close>, all
  other fields zero.
\<close>

theorem best_bid_ask_response:
  assumes "orderbooks ex market = Some ob"
  shows "(Bids eng (Some ob) mem = Inr ([], mem1) \<longrightarrow>
            handleGetBestBid eng ex mem market
              = (Respond 200 (OrderBody zero_Order), ex, mem1, []))
       \<and> (Bids eng (Some ob) mem = Inr (k # ks, mem1) \<longrightarrow>
          Bids eng (Some ob) mem1 = Inr (l # ls, mem2) \<longrightarrow>
          l_Orders (limitsH mem2 l) = r # rs \<longrightarrow>
            handleGetBestBid eng ex mem market =
              (Respond 200 (OrderBody
                 \<lparr>UserID = o_UserID (ordersH mem2 r), ID = 0, Price = l_Price (limitsH mem2 l),
                  Size = 0, Bid = False, Timestamp = 0\<rparr>), ex, mem2, []))
       \<and> (Asks eng (Some ob) mem = Inr ([], mem1) \<longrightarrow>
            handleGetBestAsk eng ex mem market
              = (Respond 200 (OrderBody zero_Order), ex, mem1, []))
       \<and> (Asks eng (Some ob) mem = Inr (k # ks, mem1) \<longrightarrow>
          Asks eng (Some ob) mem1 = Inr (l # ls, mem2) \<longrightarrow>
          l_Orders (limitsH mem2 l) = r # rs \<longrightarrow>
            handleGetBestAsk eng ex mem market =
              (Respond 200 (OrderBody
                 \<lparr>UserID = o_UserID (ordersH mem2 r), ID = 0, Price = l_Price (limitsH mem2 l),
                  Size = 0, Bid = False, Timestamp = 0\<rparr>), ex, mem2, []))
       \<and> Price zero_Order = 0 \<and> UserID zero_Order = 0"
  using assms
  by (simp add: handleGetBestBid_def handleGetBestAsk_def best_of_def zero_Order_def)

theorem best_bid_ask_response_witness:
  "orderbooks book_exchange ''ETH'' = Some 0
   \<and> Bids spec_engine (Some 0) book_memory = Inr ([], book_memory)
   \<and> fst (handleGetBestBid spec_engine book_exchange book_memory ''ETH'')
       = Respond 200 (OrderBody zero_Order)
   \<and> Asks spec_engine (Some 0) book_memory = Inr ([1, 0, 2], book_memory)
   \<and> l_Orders (limitsH book_memory 1) = [1]
   \<and> fst (handleGetBestAsk spec_engine book_exchange book_memory ''ETH'')
       = Respond 200 (OrderBody
           \<lparr>UserID = 6667, ID = 0, Price = 100, Size = 0, Bid = False, Timestamp = 0\<rparr>)"
proof -
  have book: "orderbooks book_exchange ''ETH'' = Some 0"
    by (simp add: example_defs)
  have bids: "Bids spec_engine (Some 0) book_memory = Inr ([], book_memory)"
    and asks: "Asks spec_engine (Some 0) book_memory = Inr ([1, 0, 2], book_memory)"
    by (simp_all add: spec_engine_def bids_of_def asks_of_def)
       (simp_all add: example_defs)
  have queue: "l_Orders (limitsH book_memory 1) = [1]"
    and vals: "o_UserID (ordersH book_memory 1) = 6667" "l_Price (limitsH book_memory 1) = 100"
    by (simp_all add: example_defs)
  from best_bid_ask_response [OF book, where eng = spec_engine and mem = book_memory
      and ?mem1.0 = book_memory and ?mem2.0 = book_memory and k = 1 and ks = "[0, 2]"
      and l = 1 and ls = "[0, 2]" and r = 1 and rs = "[]"]
    bids asks queue vals
  show ?thesis
    using book by simp
qed

subsection \<open>Requests of an unknown type\<close>

lemma new_order_books:
  "new_order bid sz user_id mem = Inr (order, mem1) \<Longrightarrow>
     booksH mem1 = booksH mem \<and> limitsH mem1 = limitsH mem
     \<and> order = fresh_order mem \<and> o_ID (ordersH mem1 order) = next_id mem
     \<and> next_id mem1 = next_id mem + 1
     \<and> (\<forall>r. r \<noteq> order \<longrightarrow> ordersH mem1 r = ordersH mem r)"
  by (auto simp: new_order_def Let_def split: if_splits)

text \<open>
  Claim C9 says that every decoded request whose type is neither \<^verbatim>\<open>"LIMIT"\<close> nor
  \<^verbatim>\<open>"MARKET"\<close> is answered 200. The handler constructs the order before it looks at the
  type, and the constructor of the specification fails for a size that is not positive:
  the request of unknown type with size 0 is not answered, the handler fails with the
  constructor.
\<close>

theorem unknown_type_zero_size_counterexample:
  "r_Type (stop_request\<lparr>r_Size := 0\<rparr>) \<noteq> LimitOrder
   \<and> r_Type (stop_request\<lparr>r_Size := 0\<rparr>) \<noteq> MarketOrder
   \<and> handlePlaceOrder spec_engine book_exchange book_memory
         (Some (stop_request\<lparr>r_Size := 0\<rparr>))
       = (Panicked InvalidSize, book_exchange, book_memory, [])"
  by (simp add: handlePlaceOrder_def stop_request_def LimitOrder_def MarketOrder_def
      spec_engine_def new_order_def)

text \<open>
  Claim C9, as amended. A decoded \<^verbatim>\<open>POST /order\<close> request whose type is neither \<^verbatim>\<open>"LIMIT"\<close>
  nor \<^verbatim>\<open>"MARKET"\<close> and for which \<^verbatim>\<open>NewOrder\<close> returns an order is answered 200 with the id
  of that order. The exchange is unchanged, the store is the one the constructor left,
  and no operation of the order book is called (the trace is empty): the order is
  dropped. When \<^verbatim>\<open>NewOrder\<close> fails, the handler fails with it and answers nothing. With
  the constructor of the specification the request is answered exactly when its size is
  positive, with the value of the id counter, and the books and Limits are unchanged.
\<close>

theorem unknown_type_still_answered:
  assumes "r_Type placeOrderData \<noteq> LimitOrder" and "r_Type placeOrderData \<noteq> MarketOrder"
  shows "(\<forall>order mem1.
            NewOrder eng (r_Bid placeOrderData) (r_Size placeOrderData)
              (r_UserID placeOrderData) mem = Inr (order, mem1) \<longrightarrow>
            handlePlaceOrder eng ex mem (Some placeOrderData) =
              (Respond 200 (PlaceOrderResponse (o_ID (ordersH mem1 order))), ex, mem1, []))
       \<and> (\<forall>f. NewOrder eng (r_Bid placeOrderData) (r_Size placeOrderData)
                 (r_UserID placeOrderData) mem = Inl f \<longrightarrow>
               handlePlaceOrder eng ex mem (Some placeOrderData) = (Panicked f, ex, mem, []))
       \<and> (0 < r_Size placeOrderData \<longrightarrow>
            (\<exists>mem1. handlePlaceOrder spec_engine ex mem (Some placeOrderData) =
                      (Respond 200 (PlaceOrderResponse (next_id mem)), ex, mem1, [])
                    \<and> booksH mem1 = booksH mem \<and> limitsH mem1 = limitsH mem))
       \<and> (r_Size placeOrderData \<le> 0 \<longrightarrow>
            handlePlaceOrder spec_engine ex mem (Some placeOrderData) =
              (Panicked InvalidSize, ex, mem, []))"
proof -
  have any_engine:
    "handlePlaceOrder eng ex mem (Some placeOrderData) =
       (Respond 200 (PlaceOrderResponse (o_ID (ordersH mem1 order))), ex, mem1, [])"
    if "NewOrder eng (r_Bid placeOrderData) (r_Size placeOrderData)
          (r_UserID placeOrderData) mem = Inr (order, mem1)"
    for eng order mem1
    using assms that by (simp add: handlePlaceOrder_def)
  have fails:
    "handlePlaceOrder eng ex mem (Some placeOrderData) = (Panicked f, ex, mem, [])"
    if "NewOrder eng (r_Bid placeOrderData) (r_Size placeOrderData)
          (r_UserID placeOrderData) mem = Inl f"
    for eng f
    using that by (simp add: handlePlaceOrder_def)
  have positive:
    "\<exists>mem1. handlePlaceOrder spec_engine ex mem (Some placeOrderData) =
              (Respond 200 (PlaceOrderResponse (next_id mem)), ex, mem1, [])
            \<and> booksH mem1 = booksH mem \<and> limitsH mem1 = limitsH mem"
    if "0 < r_Size placeOrderData"
  proof -
    from that obtain order mem1 where
      new: "new_order (r_Bid placeOrderData) (r_Size placeOrderData)
              (r_UserID placeOrderData) mem = Inr (order, mem1)"
      by (simp add: new_order_def Let_def)
    then have "NewOrder spec_engine (r_Bid placeOrderData) (r_Size placeOrderData)
                 (r_UserID placeOrderData) mem = Inr (order, mem1)"
      by (simp add: spec_engine_def)
    from any_engine [OF this] new_order_books [OF new] show ?thesis
      by auto
  qed
  have rejected:
    "handlePlaceOrder spec_engine ex mem (Some placeOrderData) = (Panicked InvalidSize, ex, mem, [])"
    if "r_Size placeOrderData \<le> 0"
    using that fails [of spec_engine InvalidSize] by (simp add: spec_engine_def new_order_def)
  from any_engine fails positive rejected show ?thesis
    by blast
qed

text \<open>On the example book the request of unknown type with size 5 gets the id 5.\<close>

theorem unknown_type_still_answered_witness:
  "r_Type stop_request \<noteq> LimitOrder \<and> r_Type stop_request \<noteq> MarketOrder
   \<and> 0 < r_Size stop_request
   \<and> (\<exists>mem1.
         handlePlaceOrder spec_engine book_exchange book_memory (Some stop_request) =
           (Respond 200 (PlaceOrderResponse 5), book_exchange, mem1, [])
         \<and> booksH mem1 = booksH book_memory \<and> limitsH mem1 = limitsH book_memory)"
proof -
  have ty: "r_Type stop_request \<noteq> LimitOrder" "r_Type stop_request \<noteq> MarketOrder"
    by (simp_all add: stop_request_def LimitOrder_def MarketOrder_def)
  have sz: "0 < r_Size stop_request"
    by (simp add: stop_request_def)
  have next5: "next_id book_memory = 5"
    by (simp add: book_memory_def)
  from unknown_type_still_answered [OF ty, of spec_engine book_memory book_exchange] sz
  have "\<exists>mem1.
         handlePlaceOrder spec_engine book_exchange book_memory (Some stop_request) =
           (Respond 200 (PlaceOrderResponse (next_id book_memory)), book_exchange, mem1, [])
         \<and> booksH mem1 = booksH book_memory \<and> limitsH mem1 = limitsH book_memory"
    by blast
  with ty sz show ?thesis
    by (simp add: next5)
qed

subsection \<open>Settlement of the matches\<close>

lemma handleMatches_eq:
  "handleMatches ex mem matches =
     ((case dropWhile (registered ex mem) matches of
         [] \<Rightarrow> None
       | m # _ \<Rightarrow> Some (UserNotFound (missing_user ex mem m))),
      map (transfer_of ex mem) (takeWhile (registered ex mem) matches))"
  by (induction matches)
     (auto simp: registered_def transfer_of_def key_of_def missing_user_def Let_def
        split: option.splits prod.splits list.splits)

lemma int64_of_float64_truncates:
  assumes "- (2 ^ 63) \<le> x" and "x < 2 ^ 63"
  shows "int64_of_float64 x = (if 0 \<le> x then \<lfloor>x\<rfloor> else \<lceil>x\<rceil>)"
proof (cases "0 \<le> x")
  case True
  then have "0 \<le> \<lfloor>x\<rfloor>" by simp
  moreover have "\<lfloor>x\<rfloor> < 2 ^ 63" using assms(2) by (simp add: floor_less_iff)
  ultimately show ?thesis using True
    by (simp add: int64_of_float64_def truncate_real_def Let_def)
next
  case False
  then have "\<lceil>x\<rceil> \<le> 0" by (simp add: ceiling_le_iff)
  moreover have "- (2 ^ 63) \<le> \<lceil>x\<rceil>" using assms(1) by (simp add: le_ceiling_iff)
  ultimately show ?thesis using False
    by (simp add: int64_of_float64_def truncate_real_def Let_def)
qed

lemma transferETH_sends:
  "PendingNonceAt client (PubkeyToAddress fromPK) = Inr nonce \<Longrightarrow>
   SuggestGasPrice client = Inr gasPrice \<Longrightarrow> ChainID client = Inr chainID \<Longrightarrow>
   SignTx client \<lparr>tx_nonce = nonce, tx_to = to, tx_amount = amount, tx_gasLimit = 21000,
                  tx_gasPrice = gasPrice\<rparr> chainID fromPK = Inr signedTx \<Longrightarrow>
   transferETH client fromPK to amount = (SendTransaction client signedTx, Some signedTx)"
  by (simp add: transferETH_def Let_def)

text \<open>
  Claim C10. \<^verbatim>\<open>handleMatches\<close> calls \<^verbatim>\<open>transferETH\<close> for the matches before the first
  one with an unregistered user, in order, and returns an error for that one without
  a transfer for it. Each transfer is made with the key of the ask's user, to the
  address of the bid's user, and its amount is the size filled converted to \<^verbatim>\<open>int64\<close>,
  which drops the fraction. \<^verbatim>\<open>transferETH\<close> puts this amount into the transaction it
  hands to the node.
\<close>

theorem matches_settled_in_order:
  "handleMatches ex mem matches =
     ((case dropWhile (registered ex mem) matches of
         [] \<Rightarrow> None
       | m # _ \<Rightarrow> Some (UserNotFound (missing_user ex mem m))),
      map (transfer_of ex mem) (takeWhile (registered ex mem) matches))
   \<and> (\<forall>m fromUser toUser.
         Users ex (o_UserID (ordersH mem (m_Ask m))) = Some fromUser \<longrightarrow>
         Users ex (o_UserID (ordersH mem (m_Bid m))) = Some toUser \<longrightarrow>
         transfer_of ex mem m =
           TransferETH (u_PrivateKey fromUser) (PubkeyToAddress (u_PrivateKey toUser))
             (int64_of_float64 (m_SizeFilled m)))
   \<and> (\<forall>x. - (2 ^ 63) \<le> x \<longrightarrow> x < 2 ^ 63 \<longrightarrow>
         int64_of_float64 x = (if 0 \<le> x then \<lfloor>x\<rfloor> else \<lceil>x\<rceil>))
   \<and> (\<forall>client fromPK to amount nonce gasPrice chainID signedTx.
         PendingNonceAt client (PubkeyToAddress fromPK) = Inr nonce \<longrightarrow>
         SuggestGasPrice client = Inr gasPrice \<longrightarrow> ChainID client = Inr chainID \<longrightarrow>
         SignTx client \<lparr>tx_nonce = nonce, tx_to = to, tx_amount = amount,
                        tx_gasLimit = 21000, tx_gasPrice = gasPrice\<rparr> chainID fromPK
           = Inr signedTx \<longrightarrow>
         transferETH client fromPK to amount = (SendTransaction client signedTx, Some signedTx))"
  using int64_of_float64_truncates
  by (simp add: handleMatches_eq transferETH_sends) (simp add: transfer_of_def key_of_def)

theorem matches_settled_in_order_witness:
  "handleMatches two_user_exchange book_memory fractional_matches =
     (Some (UserNotFound 8888),
      [TransferETH (HexToECDSA ''USER_2_PK'') (PubkeyToAddress (HexToECDSA ''ELON_MUSK_PK'')) 3])
   \<and> takeWhile (registered two_user_exchange book_memory) fractional_matches
       = [\<lparr>m_Ask = 1, m_Bid = 3, m_SizeFilled = 7 / 2, m_Price = 100\<rparr>]
   \<and> int64_of_float64 (7 / 2) = 3"
proof -
  have users:
    "Users two_user_exchange 6667 = Some \<lparr>u_ID = 6667, u_PrivateKey = HexToECDSA ''USER_2_PK''\<rparr>"
    "Users two_user_exchange 1 = Some \<lparr>u_ID = 1, u_PrivateKey = HexToECDSA ''ELON_MUSK_PK''\<rparr>"
    "Users two_user_exchange 8888 = None"
    by (simp_all add: two_user_exchange_def registerUser_def NewExchange_def)
  have owners: "o_UserID (ordersH book_memory 0) = 8888" "o_UserID (ordersH book_memory 1) = 6667"
    "o_UserID (ordersH book_memory 3) = 1"
    by (simp_all add: example_defs)
  have taken: "takeWhile (registered two_user_exchange book_memory) fractional_matches
       = [\<lparr>m_Ask = 1, m_Bid = 3, m_SizeFilled = 7 / 2, m_Price = 100\<rparr>]"
    and dropped: "dropWhile (registered two_user_exchange book_memory) fractional_matches
       = [\<lparr>m_Ask = 0, m_Bid = 3, m_SizeFilled = 3 / 2, m_Price = 101\<rparr>,
          \<lparr>m_Ask = 2, m_Bid = 3, m_SizeFilled = 1, m_Price = 102\<rparr>]"
    using users owners by (simp_all add: fractional_matches_def registered_def)
  have amount: "int64_of_float64 (7 / 2) = 3"
    by (simp add: int64_of_float64_def truncate_real_def)
  have "handleMatches two_user_exchange book_memory fractional_matches =
     (Some (UserNotFound 8888),
      [TransferETH (HexToECDSA ''USER_2_PK'') (PubkeyToAddress (HexToECDSA ''ELON_MUSK_PK'')) 3])"
    using matches_settled_in_order [of two_user_exchange book_memory fractional_matches]
      users owners amount
    by (simp add: taken dropped transfer_of_def key_of_def missing_user_def)
  with taken amount show ?thesis by blast
qed

subsection \<open>Order of the effects of a market order\<close>

lemma settled_outside_transfers:
  "settled_outside True False (map (transfer_of ex mem) ms)"
  by (induction ms) (simp_all add: transfer_of_def)

lemma settled_outside_handleMatches:
  "handleMatches ex mem matches = (err, tr) \<Longrightarrow> settled_outside True False tr"
  by (auto simp: handleMatches_eq settled_outside_transfers)

text \<open>
  Claim C7. In the effects of a \<^verbatim>\<open>POST /order\<close> request of type \<^verbatim>\<open>"MARKET"\<close>, every
  call of \<^verbatim>\<open>transferETH\<close> comes after \<^verbatim>\<open>PlaceMarketOrder\<close> has returned and after the
  exchange mutex has been released.
\<close>

theorem transfers_after_engine_outside_lock:
  assumes "r_Type placeOrderData = MarketOrder"
  shows "settled_outside False False
           (snd (snd (snd (handlePlaceOrder eng ex mem (Some placeOrderData)))))"
proof -
  have ne: "MarketOrder \<noteq> LimitOrder"
    by (simp add: MarketOrder_def LimitOrder_def)
  show ?thesis
    using assms ne
    by (auto simp: handlePlaceOrder_def handlePlaceMarketOrder_def Let_def
        split: sum.splits prod.splits option.splits
        dest: settled_outside_handleMatches)
qed

theorem transfers_after_engine_outside_lock_witness:
  "r_Type market_request = MarketOrder
   \<and> snd (snd (snd (handlePlaceOrder spec_engine book_exchange book_memory (Some market_request))))
       = [Enter OpPlaceMarketOrder, Leave OpPlaceMarketOrder,
          LogFilledMarketOrder (Finite (201 / 2)) ''MARKET'' (Finite 5), Lock, Unlock,
          TransferETH (HexToECDSA ''USER_2_PK'') (PubkeyToAddress (HexToECDSA ''ELON_MUSK_PK'')) 3,
          TransferETH (HexToECDSA ''USER_1_PK'') (PubkeyToAddress (HexToECDSA ''ELON_MUSK_PK'')) 2]
   \<and> settled_outside False False
        (snd (snd (snd (handlePlaceOrder spec_engine book_exchange book_memory
           (Some market_request)))))"
proof -
  have ty: "r_Type market_request = MarketOrder"
    by (simp add: market_request_def)
  have "snd (snd (snd (handlePlaceOrder spec_engine book_exchange book_memory (Some market_request))))
       = [Enter OpPlaceMarketOrder, Leave OpPlaceMarketOrder,
          LogFilledMarketOrder (Finite (201 / 2)) ''MARKET'' (Finite 5), Lock, Unlock,
          TransferETH (HexToECDSA ''USER_2_PK'') (PubkeyToAddress (HexToECDSA ''ELON_MUSK_PK'')) 3,
          TransferETH (HexToECDSA ''USER_1_PK'') (PubkeyToAddress (HexToECDSA ''ELON_MUSK_PK'')) 2]"
    by (simp add: handlePlaceOrder_def handlePlaceMarketOrder_def market_request_def
        MarketOrder_def LimitOrder_def example_defs engine_defs matches_loop_eq float_defs
        round64_examples int64_of_float64_def truncate_real_def)
  with transfers_after_engine_outside_lock [OF ty, of spec_engine book_exchange book_memory] ty
  show ?thesis by simp
qed

subsection \<open>Unknown markets\<close>

lemma get_book_unknown_market:
  "orderbooks ex market = None \<Longrightarrow>
     handleGetBook eng ex mem market = (Respond 400 (Msg ''market not found''), ex, mem, [])"
  by (simp add: handleGetBook_def)

lemma get_trades_unknown_market:
  "orderbooks ex market = None \<Longrightarrow>
     handleGetTrades ex mem market = (Respond 400 (APIError ''orderbook not found''), ex, mem, [])"
  by (simp add: handleGetTrades_def)

lemma best_bid_unknown_market_no_validation_error:
  "orderbooks ex market = None \<Longrightarrow>
     (\<exists>f. fst (handleGetBestBid eng ex mem market) = Panicked f)
     \<or> (\<exists>b. fst (handleGetBestBid eng ex mem market) = Respond 200 b)"
  by (auto simp: handleGetBestBid_def best_of_def Let_def split: sum.splits list.splits)

lemma best_ask_unknown_market_no_validation_error:
  "orderbooks ex market = None \<Longrightarrow>
     (\<exists>f. fst (handleGetBestAsk eng ex mem market) = Panicked f)
     \<or> (\<exists>b. fst (handleGetBestAsk eng ex mem market) = Respond 200 b)"
  by (auto simp: handleGetBestAsk_def best_of_def Let_def split: sum.splits list.splits)

text \<open>
  Claim C3. A request that names a market without an order book should be reported as
  a validation error. \<^verbatim>\<open>handleGetBook\<close> and \<^verbatim>\<open>handleGetTrades\<close> answer 400 and change
  nothing. \<^verbatim>\<open>handleGetBestBid\<close> and \<^verbatim>\<open>handleGetBestAsk\<close> do not test the lookup: on the
  exchange at start-up, for the market \<^verbatim>\<open>"BTC"\<close>, they call the method on a nil book and
  panic.
\<close>

theorem best_bid_ask_unknown_market_panic:
  "orderbooks start_exchange ''BTC'' = None
   \<and> handleGetBestBid spec_engine start_exchange start_memory ''BTC''
       = (Panicked NilPointerDereference, start_exchange, start_memory, [])
   \<and> handleGetBestAsk spec_engine start_exchange start_memory ''BTC''
       = (Panicked NilPointerDereference, start_exchange, start_memory, [])
   \<and> handleGetBook spec_engine start_exchange start_memory ''BTC''
       = (Respond 400 (Msg ''market not found''), start_exchange, start_memory, [])
   \<and> handleGetTrades start_exchange start_memory ''BTC''
       = (Respond 400 (APIError ''orderbook not found''), start_exchange, start_memory, [])"
proof -
  have none: "orderbooks start_exchange ''BTC'' = None"
    by (simp add: start_exchange_def registerUser_def NewExchange_def MarketETH_def)
  then show ?thesis
    by (simp add: handleGetBestBid_def handleGetBestAsk_def get_book_unknown_market
        get_trades_unknown_market spec_engine_def bids_of_def asks_of_def)
qed

subsection \<open>Cancelling an unknown order\<close>

text \<open>
  Claim C2 says that \<^verbatim>\<open>DELETE /order/{id}\<close> for an unknown id is reported as an error.
  On the exchange at start-up no order has the id 42, and the request is answered 200
  with the message of a successful cancellation.
\<close>

theorem cancel_unknown_id_counterexample:
  "book_Orders (booksH start_memory 0) 42 = None
   \<and> cancelOrder spec_engine start_exchange start_memory ''42''
       = (Respond 200 (Msg ''order deleted''), start_exchange, start_memory,
          [Enter OpCancelOrder, Leave OpCancelOrder, LogOrderCanceled 42])"
  by (simp add: cancelOrder_def Atoi_def digit_val_def spec_engine_def cancel_def
      start_exchange_def registerUser_def NewExchange_def MarketETH_def)
     (simp add: start_memory_def NewOrderBook_def)

text \<open>
  Claim C2, as amended. For an id that is not in the order map of the book, the handler
  hands a nil order to \<^verbatim>\<open>CancelOrder\<close>; whenever that call returns, the response is 200
  with the message \<^verbatim>\<open>order deleted\<close>, and if it panics there is no response. With the
  order book of the specification the call is a no-op: the store is unchanged.
\<close>

theorem cancel_unknown_id_answered_ok:
  assumes "orderbooks ex MarketETH = Some ob"
    and "book_Orders (booksH mem ob) (fst (Atoi idStr)) = None"
  shows "(\<forall>mem1. CancelOrder eng (Some ob) None mem = Inr mem1 \<longrightarrow>
            cancelOrder eng ex mem idStr =
              (Respond 200 (Msg ''order deleted''), ex, mem1,
               [Enter OpCancelOrder, Leave OpCancelOrder, LogOrderCanceled (fst (Atoi idStr))]))
       \<and> (\<forall>f. CancelOrder eng (Some ob) None mem = Inl f \<longrightarrow>
            cancelOrder eng ex mem idStr = (Panicked f, ex, mem, [Enter OpCancelOrder]))
       \<and> cancelOrder spec_engine ex mem idStr =
           (Respond 200 (Msg ''order deleted''), ex, mem,
            [Enter OpCancelOrder, Leave OpCancelOrder, LogOrderCanceled (fst (Atoi idStr))])"
  using assms
  by (simp add: cancelOrder_def Let_def spec_engine_def cancel_def)

text \<open>
  On the example book no order has the id 77. The order with id 2 is removed by a first
  \<^verbatim>\<open>DELETE /order/2\<close>; a second one is answered in the same way and changes nothing.
\<close>

theorem cancel_unknown_id_answered_ok_witness:
  "orderbooks book_exchange MarketETH = Some 0
   \<and> book_Orders (booksH book_memory 0) (fst (Atoi ''77'')) = None
   \<and> cancelOrder spec_engine book_exchange book_memory ''77'' =
       (Respond 200 (Msg ''order deleted''), book_exchange, book_memory,
        [Enter OpCancelOrder, Leave OpCancelOrder, LogOrderCanceled 77])
   \<and> book_Orders (booksH book_memory 0) 2 = Some 1
   \<and> book_Orders (booksH cancelled_memory 0) (fst (Atoi ''2'')) = None
   \<and> cancelOrder spec_engine book_exchange cancelled_memory ''2'' =
       (Respond 200 (Msg ''order deleted''), book_exchange, cancelled_memory,
        [Enter OpCancelOrder, Leave OpCancelOrder, LogOrderCanceled 2])"
proof -
  have book: "orderbooks book_exchange MarketETH = Some 0"
    by (simp add: example_defs)
  have parse: "fst (Atoi ''77'') = 77" "fst (Atoi ''2'') = 2"
    by (simp_all add: Atoi_def digit_val_def)
  have unknown: "book_Orders (booksH book_memory 0) (fst (Atoi ''77'')) = None"
    by (simp add: parse) (simp add: example_defs)
  have known: "book_Orders (booksH book_memory 0) 2 = Some 1"
    by (simp add: example_defs)
  have removed: "book_Orders (booksH cancelled_memory 0) (fst (Atoi ''2'')) = None"
    by (simp add: parse)
       (simp add: cancelled_memory_def cancelOrder_def Atoi_def digit_val_def example_defs
          engine_defs)
  from cancel_unknown_id_answered_ok [OF book unknown, of spec_engine]
    cancel_unknown_id_answered_ok [OF book removed, of spec_engine]
    book unknown known removed
  show ?thesis by (simp add: parse)
qed

subsection \<open>Order ids\<close>

lemma keeps_ids_refl: "keeps_ids mem mem"
  by (simp add: keeps_ids_def)

lemma keeps_ids_trans: "keeps_ids m1 m2 \<Longrightarrow> keeps_ids m2 m3 \<Longrightarrow> keeps_ids m1 m3"
  unfolding keeps_ids_def by (metis subset_trans)

lemma keeps_ids_clear_limit: "keeps_ids mem (clear_limit b bid l mem)"
  by (simp add: keeps_ids_def clear_limit_def Let_def)

lemma keeps_ids_fill_order:
  "fill_order b l incoming r mem = (m, mem') \<Longrightarrow> keeps_ids mem mem'"
  by (auto simp: keeps_ids_def fill_order_def Let_def split: if_splits)

lemma keeps_ids_fill_queue:
  "fill_queue b l incoming rs mem ms = (ms', mem') \<Longrightarrow> keeps_ids mem mem'"
proof (induction rs arbitrary: mem ms)
  case Nil
  then show ?case by (simp add: keeps_ids_refl)
next
  case (Cons r rs)
  obtain m mem1 where step: "fill_order b l incoming r mem = (m, mem1)"
    by (cases "fill_order b l incoming r mem")
  show ?case
  proof (cases "o_Size (ordersH mem1 incoming) = 0")
    case True
    with Cons.prems step have "mem' = mem1" by simp
    with keeps_ids_fill_order [OF step] show ?thesis by simp
  next
    case False
    with Cons.prems step have "fill_queue b l incoming rs mem1 (ms @ [m]) = (ms', mem')"
      by simp
    from keeps_ids_trans [OF keeps_ids_fill_order [OF step] Cons.IH [OF this]]
    show ?thesis .
  qed
qed

lemma keeps_ids_fill_side:
  "fill_side b side_bid incoming ls mem ms = (ms', mem') \<Longrightarrow> keeps_ids mem mem'"
proof (induction ls arbitrary: mem ms)
  case Nil
  then show ?case by (simp add: keeps_ids_refl)
next
  case (Cons l ls)
  obtain ms1 mem1 where q: "fill_queue b l incoming (l_Orders (limitsH mem l)) mem ms = (ms1, mem1)"
    by (cases "fill_queue b l incoming (l_Orders (limitsH mem l)) mem ms")
  let ?mem2 = "clear_limit b side_bid l mem1"
  have k2: "keeps_ids mem ?mem2"
    using keeps_ids_trans [OF keeps_ids_fill_queue [OF q] keeps_ids_clear_limit] .
  show ?case
  proof (cases "o_Size (ordersH ?mem2 incoming) = 0")
    case True
    with Cons.prems q have "mem' = ?mem2" by (simp add: Let_def)
    with k2 show ?thesis by simp
  next
    case False
    with Cons.prems q have "fill_side b side_bid incoming ls ?mem2 ms1 = (ms', mem')"
      by (simp add: Let_def)
    from keeps_ids_trans [OF k2 Cons.IH [OF this]] show ?thesis .
  qed
qed

lemma keeps_ids_place_market:
  assumes "place_market book incoming mem = Inr (matches, mem')"
  shows "keeps_ids mem mem'"
proof -
  from assms obtain b mem1 where
    side: "fill_side b (\<not> o_Bid (ordersH mem incoming)) incoming
             (if o_Bid (ordersH mem incoming) then book_asks (booksH mem b)
              else book_bids (booksH mem b)) mem [] = (matches, mem1)"
    and mem': "mem' = mem1\<lparr>booksH := (booksH mem1)
                 (b := (booksH mem1 b)\<lparr>book_Trades := book_Trades (booksH mem1 b)
                     @ map (trade_of mem1 (o_Bid (ordersH mem incoming))) matches\<rparr>)\<rparr>"
    by (auto simp: place_market_def Let_def split: option.splits if_splits prod.splits)
  have "keeps_ids mem1 mem'"
    by (simp add: keeps_ids_def mem')
  with keeps_ids_fill_side [OF side] show ?thesis
    by (rule keeps_ids_trans)
qed

lemma place_limit_ids:
  assumes "place_limit book price r mem = Inr mem'"
  shows "(\<forall>x. o_ID (ordersH mem' x) = o_ID (ordersH mem x))
       \<and> next_id mem' = next_id mem
       \<and> (\<forall>b. dom (book_Orders (booksH mem' b))
                \<subseteq> insert (o_ID (ordersH mem r)) (dom (book_Orders (booksH mem b))))"
  using assms
  by (auto simp: place_limit_def add_order_def Let_def split: option.splits if_splits)

lemma ids_below_new_order:
  assumes "new_order bid sz user_id mem = Inr (order, mem1)" and "ids_below mem"
  shows "ids_below mem1"
  using assms new_order_books [OF assms(1)]
  by (fastforce simp: ids_below_def)

lemma ids_below_keeps: "keeps_ids mem mem' \<Longrightarrow> ids_below mem \<Longrightarrow> ids_below mem'"
  unfolding keeps_ids_def ids_below_def by (metis subsetD)

lemma ids_below_place_limit:
  assumes "place_limit book price r mem = Inr mem'" and "ids_below mem"
    and "o_ID (ordersH mem r) < next_id mem"
  shows "ids_below mem'"
  using place_limit_ids [OF assms(1)] assms(2,3)
  unfolding ids_below_def by (metis insertE subsetD)

lemma spec_order_id_fresh:
  assumes "handlePlaceOrder spec_engine ex mem (Some placeOrderData) = (Respond st b, ex', mem', tr)"
  shows "st = 200 \<and> b = PlaceOrderResponse (next_id mem)
       \<and> o_ID (ordersH mem' (fresh_order mem)) = next_id mem
       \<and> next_id mem' = next_id mem + 1
       \<and> (ids_below mem \<longrightarrow>
            (\<forall>book. book_Orders (booksH mem book) (next_id mem) = None) \<and> ids_below mem')"
proof -
  let ?market = "r_Market placeOrderData"
  from assms obtain order mem1 where
    new: "new_order (r_Bid placeOrderData) (r_Size placeOrderData) (r_UserID placeOrderData) mem
            = Inr (order, mem1)"
    by (auto simp: handlePlaceOrder_def spec_engine_def Let_def split: sum.splits)
  have n: "o_ID (ordersH mem1 order) = next_id mem" "next_id mem1 = next_id mem + 1"
    and fresh: "order = fresh_order mem"
    using new_order_books [OF new] by auto
  have ne: "MarketOrder \<noteq> LimitOrder"
    by (simp add: MarketOrder_def LimitOrder_def)
  have unused: "ids_below mem \<Longrightarrow> book_Orders (booksH mem book) (next_id mem) = None" for book
    unfolding ids_below_def by (metis domIff less_irrefl)
  have post: "st = 200 \<and> b = PlaceOrderResponse (o_ID (ordersH mem' order))
       \<and> o_ID (ordersH mem' order) = next_id mem \<and> next_id mem' = next_id mem + 1
       \<and> (ids_below mem \<longrightarrow> ids_below mem')"
  proof (cases "r_Type placeOrderData = LimitOrder")
    case True
    with assms new ne obtain
      lim: "place_limit (orderbooks ex ?market) (r_Price placeOrderData) order mem1 = Inr mem'"
      and resp: "st = 200" "b = PlaceOrderResponse (o_ID (ordersH mem' order))"
      by (auto simp: handlePlaceOrder_def handlePlaceLimitOrder_def spec_engine_def Let_def
          split: sum.splits)
    from place_limit_ids [OF lim] n
    have ids: "o_ID (ordersH mem' order) = next_id mem" "next_id mem' = next_id mem + 1"
      by simp_all
    have "ids_below mem'" if "ids_below mem"
    proof (rule ids_below_place_limit [OF lim])
      show "ids_below mem1" using ids_below_new_order [OF new that] .
      show "o_ID (ordersH mem1 order) < next_id mem1" using n by simp
    qed
    with resp ids show ?thesis by simp
  next
    case False
    note not_limit = this
    show ?thesis
    proof (cases "r_Type placeOrderData = MarketOrder")
      case True
      with assms new not_limit obtain matches where
        mkt: "place_market (orderbooks ex ?market) order mem1 = Inr (matches, mem')"
        and resp: "st = 200" "b = PlaceOrderResponse (o_ID (ordersH mem' order))"
        by (auto simp: handlePlaceOrder_def handlePlaceMarketOrder_def spec_engine_def Let_def
            split: sum.splits prod.splits option.splits)
      note k = keeps_ids_place_market [OF mkt]
      from k n have ids: "o_ID (ordersH mem' order) = next_id mem" "next_id mem' = next_id mem + 1"
        by (simp_all add: keeps_ids_def)
      have "ids_below mem'" if "ids_below mem"
        using ids_below_keeps [OF k ids_below_new_order [OF new that]] .
      with resp ids show ?thesis by simp
    next
      case False
      with assms new not_limit have
        "st = 200" "b = PlaceOrderResponse (o_ID (ordersH mem' order))" "mem' = mem1"
        by (auto simp: handlePlaceOrder_def spec_engine_def Let_def split: sum.splits)
      with n ids_below_new_order [OF new] show ?thesis by simp
    qed
  qed
  with fresh unused show ?thesis by simp
qed

lemma accepted_response_is_order_id:
  assumes "handlePlaceOrder eng ex mem (Some placeOrderData) = (Respond st b, ex', mem', tr)"
  shows "\<exists>order mem1.
           NewOrder eng (r_Bid placeOrderData) (r_Size placeOrderData)
             (r_UserID placeOrderData) mem = Inr (order, mem1)
           \<and> st = 200 \<and> b = PlaceOrderResponse (o_ID (ordersH mem' order))"
  using assms
  by (auto simp: handlePlaceOrder_def handlePlaceLimitOrder_def handlePlaceMarketOrder_def
      Let_def split: sum.splits prod.splits option.splits if_splits)

text \<open>
  Claim C6. Every \<^verbatim>\<open>POST /order\<close> request that is answered at all, of whatever type, is
  answered 200 with \<^verbatim>\<open>{OrderID}\<close>, the \<^verbatim>\<open>ID\<close> of the order that \<^verbatim>\<open>NewOrder\<close> constructed for
  this request; the request has no field for an id. With the order constructor of the
  specification that id is the value of the engine's counter: the counter moves on by
  one, and when all ids in the order maps are below the counter, the new id is in no
  order map before the request and all ids are below the counter after it, so that an id
  is never used twice.
\<close>

theorem order_id_is_engine_assigned:
  assumes "handlePlaceOrder eng ex mem (Some placeOrderData) = (Respond st b, ex', mem', tr)"
  shows "(\<exists>order mem1.
            NewOrder eng (r_Bid placeOrderData) (r_Size placeOrderData)
              (r_UserID placeOrderData) mem = Inr (order, mem1)
            \<and> st = 200 \<and> b = PlaceOrderResponse (o_ID (ordersH mem' order)))
       \<and> (eng = spec_engine \<longrightarrow>
            b = PlaceOrderResponse (next_id mem)
            \<and> o_ID (ordersH mem' (fresh_order mem)) = next_id mem
            \<and> next_id mem' = next_id mem + 1
            \<and> (ids_below mem \<longrightarrow>
                 (\<forall>book. book_Orders (booksH mem book) (next_id mem) = None)
                 \<and> ids_below mem'))"
  using accepted_response_is_order_id [OF assms] spec_order_id_fresh assms
  by blast

lemma limit_order_example:
  "\<exists>ex' mem' tr. handlePlaceOrder spec_engine book_exchange book_memory (Some limit_request)
      = (Respond 200 (PlaceOrderResponse 5), ex', mem', tr)
     \<and> book_Orders (booksH mem' 0) 5 = Some 4 \<and> book_bids (booksH mem' 0) = [3]
     \<and> Orders ex' 8888 = Some [0, 4]"
  by (simp add: handlePlaceOrder_def handlePlaceLimitOrder_def limit_request_def
      MarketOrder_def LimitOrder_def example_defs engine_defs)

lemma ids_below_book_memory: "ids_below book_memory"
  by (auto simp: ids_below_def example_defs split: if_splits)

theorem order_id_is_engine_assigned_witness:
  "\<exists>ex' mem' tr.
     handlePlaceOrder spec_engine book_exchange book_memory (Some limit_request)
       = (Respond 200 (PlaceOrderResponse 5), ex', mem', tr)
     \<and> next_id book_memory = 5 \<and> next_id mem' = 6
     \<and> ids_below book_memory \<and> ids_below mem'
     \<and> book_Orders (booksH book_memory 0) 5 = None
     \<and> book_Orders (booksH mem' 0) 5 = Some 4"
proof -
  obtain ex' mem' tr where
    run: "handlePlaceOrder spec_engine book_exchange book_memory (Some limit_request)
            = (Respond 200 (PlaceOrderResponse 5), ex', mem', tr)"
    and placed: "book_Orders (booksH mem' 0) 5 = Some 4"
    using limit_order_example by blast
  have next5: "next_id book_memory = 5"
    by (simp add: book_memory_def)
  from order_id_is_engine_assigned [OF run] ids_below_book_memory next5
  have "next_id mem' = 6" "ids_below mem'" "book_Orders (booksH book_memory 0) 5 = None"
    by simp_all
  with run placed next5 ids_below_book_memory show ?thesis by blast
qed

lemmas run_defs = handlePlaceOrder_def handlePlaceLimitOrder_def handlePlaceMarketOrder_def
  order_request_def MarketOrder_def LimitOrder_def example_defs engine_defs matches_loop_eq
  int64_of_float64_def truncate_real_def prune_orders_def

subsection \<open>The scenarios of the specification\<close>

text \<open>
  The example book is the state the handlers reach from start-up by the three limit
  orders of scenario S2, followed by the construction of the incoming market order.
\<close>

lemma S2_book_eq:
  "fst S2_book = book_exchange"
  "ordersH (snd S2_book) = (ordersH book_memory)(3 := ordersH start_memory 3)"
  "limitsH (snd S2_book) = limitsH book_memory"
  "booksH (snd S2_book) = booksH book_memory"
  "next_id (snd S2_book) = 4" "fresh_order (snd S2_book) = 3" "fresh_limit (snd S2_book) = 3"
  "new_order True 5 1 (snd S2_book) = Inr (3, book_memory)"
  unfolding S2_book_def
  by (simp_all add: run_defs fun_eq_iff)

text \<open>
  Scenarios S2, S3, S4, S5 and S1 of section 8 of the specification, run through the
  handlers: price priority across levels, insufficient liquidity on an empty book,
  cancellation that removes the emptied Limit, a partial fill, and FIFO within a level.
\<close>

lemma scenario_S2:
  "handlePlaceOrder spec_engine book_exchange (snd S2_book)
      (Some (order_request MarketOrder True 5 0 1)) = (out, ex', mem', tr) \<Longrightarrow>
   out = Respond 200 (PlaceOrderResponse 4)
   \<and> book_Trades (booksH mem' 0)
       = [\<lparr>t_Price = 100, t_Size = 3, t_Bid = True, t_Timestamp = 0\<rparr>,
          \<lparr>t_Price = 101, t_Size = 2, t_Bid = True, t_Timestamp = 0\<rparr>]
   \<and> book_asks (booksH mem' 0) = [0, 2]
   \<and> o_Size (ordersH mem' 0) = 1 \<and> o_Size (ordersH mem' 2) = 3
   \<and> l_TotalVolume (limitsH mem' 0) = 1
   \<and> book_Orders (booksH mem' 0) 2 = None"
  unfolding S2_book_def
  by (simp add: run_defs) auto

lemma scenario_S3:
  "handlePlaceOrder spec_engine start_exchange start_memory
      (Some (order_request MarketOrder True 1 0 1)) = (out, ex', mem', tr) \<Longrightarrow>
   out = Panicked InsufficientLiquidity \<and> ex' = start_exchange
   \<and> booksH mem' = booksH start_memory \<and> limitsH mem' = limitsH start_memory
   \<and> tr = [Enter OpPlaceMarketOrder]"
  by (simp add: run_defs) auto

lemma scenario_S4:
  "handlePlaceOrder spec_engine start_exchange start_memory
      (Some (order_request LimitOrder True 2 50 8888)) = (out1, ex1, mem1, tr1) \<Longrightarrow>
   cancelOrder spec_engine ex1 mem1 ''1'' = (out2, ex2, mem2, tr2) \<Longrightarrow>
   out1 = Respond 200 (PlaceOrderResponse 1) \<and> book_bids (booksH mem1 0) = [0]
   \<and> out2 = Respond 200 (Msg ''order deleted'')
   \<and> book_bids (booksH mem2 0) = [] \<and> book_Orders (booksH mem2 0) 1 = None
   \<and> bid_total_volume (Some 0) mem2 = Inr (0, mem2)
   \<and> fst (handleGetBestBid spec_engine ex2 mem2 ''ETH'') = Respond 200 (OrderBody zero_Order)"
  by (auto simp: run_defs cancelOrder_def Atoi_def digit_val_def handleGetBestBid_def)

lemma scenario_S5:
  "handlePlaceOrder spec_engine start_exchange start_memory
      (Some (order_request LimitOrder False 10 100 8888)) = (out1, ex1, mem1, tr1) \<Longrightarrow>
   handlePlaceOrder spec_engine ex1 mem1
      (Some (order_request MarketOrder True 4 0 1)) = (out2, ex2, mem2, tr2) \<Longrightarrow>
   out2 = Respond 200 (PlaceOrderResponse 2)
   \<and> book_Trades (booksH mem2 0) = [\<lparr>t_Price = 100, t_Size = 4, t_Bid = True, t_Timestamp = 0\<rparr>]
   \<and> o_Size (ordersH mem2 0) = 6 \<and> o_Limit (ordersH mem2 0) = Some 0
   \<and> ask_total_volume (Some 0) mem2 = Inr (6, mem2)"
  by (auto simp: run_defs)

lemma scenario_S1:
  "handlePlaceOrder spec_engine start_exchange start_memory
      (Some (order_request LimitOrder False 5 100 8888)) = (out1, ex1, mem1, tr1) \<Longrightarrow>
   handlePlaceOrder spec_engine ex1 mem1
      (Some (order_request LimitOrder False 5 100 6667)) = (out2, ex2, mem2, tr2) \<Longrightarrow>
   handlePlaceOrder spec_engine ex2 mem2
      (Some (order_request MarketOrder True 5 0 1)) = (out3, ex3, mem3, tr3) \<Longrightarrow>
   out3 = Respond 200 (PlaceOrderResponse 3)
   \<and> book_Trades (booksH mem3 0) = [\<lparr>t_Price = 100, t_Size = 5, t_Bid = True, t_Timestamp = 0\<rparr>]
   \<and> book_Orders (booksH mem3 0) 1 = None \<and> book_Orders (booksH mem3 0) 2 = Some 1
   \<and> o_Size (ordersH mem3 1) = 5 \<and> l_Orders (limitsH mem3 0) = [1]
   \<and> ask_total_volume (Some 0) mem3 = Inr (5, mem3)"
  by (auto simp: run_defs)

end
